theory Spec2Isabelle
  imports Complex_Main "HOL-Library.Sublist" "HOL-Library.Log_Nat"
begin

section \<open>Python values and the operations the scripts apply to them\<close>

text \<open>
  The scripts work on the values that \<open>response.json()\<close> and a table cell hold: \<open>None\<close>,
  booleans, integers, floats, strings, lists and dictionaries with string keys. A dictionary
  is the list of its items in insertion order; a key is looked up with \<open>map_of\<close>. Integers
  are unbounded as in Python. A float is read as the real number it denotes; only its
  comparisons with integer constants and its truth value are used below, which are exact
  (\<open>NaN\<close> is not a value of the model).
\<close>

datatype py =
    PNone
  | PBool bool
  | PInt int
  | PFloat real
  | PStr string
  | PList "py list"
  | PDict "(string \<times> py) list"

text \<open>The exceptions that none of the scripts catch.\<close>

datatype py_error = KeyError | TypeError | IndexError | AttributeError | ValueError

definition ebind :: "py_error + 'a \<Rightarrow> ('a \<Rightarrow> py_error + 'b) \<Rightarrow> py_error + 'b" where
  "ebind m f = (case m of Inl e \<Rightarrow> Inl e | Inr v \<Rightarrow> f v)"

text \<open>A list comprehension \<open>[f(x) for x in xs]\<close>: the first exception ends it.\<close>

fun map_result :: "('a \<Rightarrow> py_error + 'b) \<Rightarrow> 'a list \<Rightarrow> py_error + 'b list" where
  "map_result f [] = Inr []"
| "map_result f (x # xs) =
     (case f x of
        Inl e \<Rightarrow> Inl e
      | Inr y \<Rightarrow> (case map_result f xs of Inl e \<Rightarrow> Inl e | Inr ys \<Rightarrow> Inr (y # ys)))"

text \<open>Truth value of a value in \<open>if x\<close> and \<open>not x\<close>.\<close>

fun py_truthy :: "py \<Rightarrow> bool" where
  "py_truthy PNone = False"
| "py_truthy (PBool b) = b"
| "py_truthy (PInt n) = (n \<noteq> 0)"
| "py_truthy (PFloat x) = (x \<noteq> 0)"
| "py_truthy (PStr s) = (s \<noteq> [])"
| "py_truthy (PList xs) = (xs \<noteq> [])"
| "py_truthy (PDict kvs) = (kvs \<noteq> [])"

text \<open>\<open>needle in hay\<close> on two strings: \<open>needle\<close> occurs in \<open>hay\<close> as a contiguous run.\<close>

fun str_in :: "string \<Rightarrow> string \<Rightarrow> bool" where
  "str_in needle [] = (needle = [])"
| "str_in needle (c # cs) = (prefix needle (c # cs) \<or> str_in needle cs)"

text \<open>
  \<open>'k' in x\<close> for a string literal \<open>'k'\<close>: substring test on a string, membership in a
  list, key membership in a dictionary, \<open>TypeError\<close> on the other values.
\<close>

fun py_in :: "string \<Rightarrow> py \<Rightarrow> py_error + bool" where
  "py_in k (PStr s) = Inr (str_in k s)"
| "py_in k (PList xs) = Inr (PStr k \<in> set xs)"
| "py_in k (PDict kvs) = Inr (k \<in> fst ` set kvs)"
| "py_in k PNone = Inl TypeError"
| "py_in k (PBool b) = Inl TypeError"
| "py_in k (PInt n) = Inl TypeError"
| "py_in k (PFloat x) = Inl TypeError"

text \<open>\<open>x['k']\<close>: only a dictionary can be indexed by a string.\<close>

fun py_getitem :: "py \<Rightarrow> string \<Rightarrow> py_error + py" where
  "py_getitem (PDict kvs) k = (case map_of kvs k of None \<Rightarrow> Inl KeyError | Some v \<Rightarrow> Inr v)"
| "py_getitem x k = Inl TypeError"

text \<open>\<open>x.get('k', d)\<close>: only a dictionary has the method.\<close>

fun py_get :: "py \<Rightarrow> string \<Rightarrow> py \<Rightarrow> py_error + py" where
  "py_get (PDict kvs) k d = Inr (case map_of kvs k of None \<Rightarrow> d | Some v \<Rightarrow> v)"
| "py_get x k d = Inl AttributeError"

text \<open>
  The items a \<open>for\<close> loop or a comprehension runs over: the elements of a list, the
  one-character strings of a string, the keys of a dictionary.
\<close>

fun py_iter :: "py \<Rightarrow> py_error + py list" where
  "py_iter (PList xs) = Inr xs"
| "py_iter (PStr s) = Inr (map (\<lambda>c. PStr [c]) s)"
| "py_iter (PDict kvs) = Inr (map (\<lambda>kv. PStr (fst kv)) kvs)"
| "py_iter x = Inl TypeError"

text \<open>\<open>x > k\<close> and \<open>x < k\<close> for an integer constant \<open>k\<close>; \<open>True\<close> counts as 1.\<close>

fun py_gt :: "py \<Rightarrow> int \<Rightarrow> py_error + bool" where
  "py_gt (PInt n) k = Inr (n > k)"
| "py_gt (PFloat x) k = Inr (x > real_of_int k)"
| "py_gt (PBool b) k = Inr ((if b then 1 else 0) > k)"
| "py_gt x k = Inl TypeError"

fun py_lt :: "py \<Rightarrow> int \<Rightarrow> py_error + bool" where
  "py_lt (PInt n) k = Inr (n < k)"
| "py_lt (PFloat x) k = Inr (x < real_of_int k)"
| "py_lt (PBool b) k = Inr ((if b then 1 else 0) < k)"
| "py_lt x k = Inl TypeError"

text \<open>The real number a numeric cell denotes.\<close>

fun num_val :: "py \<Rightarrow> real option" where
  "num_val (PInt n) = Some (real_of_int n)"
| "num_val (PFloat x) = Some x"
| "num_val x = None"

section \<open>Streaming Enricher: \<open>add_streaming_data.py\<close>\<close>

subsection \<open>\<open>StreamingEnricher.parse_providers\<close>\<close>

record parsed =
  available_on_streaming :: bool
  streaming_platforms :: "py list"
  available_to_rent :: bool
  available_to_buy :: bool
  on_netflix :: bool
  on_prime :: bool
  on_disney :: bool
  on_hulu :: bool
  on_hbo :: bool
  total_platforms :: nat

text \<open>The dictionary \<open>parsed\<close> as it is initialised.\<close>

definition parsed_init :: parsed where
  "parsed_init =
     \<lparr> available_on_streaming = False, streaming_platforms = [],
       available_to_rent = False, available_to_buy = False,
       on_netflix = False, on_prime = False, on_disney = False, on_hulu = False,
       on_hbo = False, total_platforms = 0 \<rparr>"

text \<open>\<open>any(c(p) for p in platforms)\<close> stops at the first true item.\<close>

fun py_any :: "(py \<Rightarrow> py_error + bool) \<Rightarrow> py list \<Rightarrow> py_error + bool" where
  "py_any c [] = Inr False"
| "py_any c (p # ps) =
     (case c p of
        Inl e \<Rightarrow> Inl e
      | Inr b \<Rightarrow> if b then Inr True else py_any c ps)"

text \<open>\<open>'a' in p or 'b' in p\<close>: the second test runs only when the first is false.\<close>

definition in_or :: "string \<Rightarrow> string \<Rightarrow> py \<Rightarrow> py_error + bool" where
  "in_or a b p = (case py_in a p of Inl e \<Rightarrow> Inl e | Inr t \<Rightarrow> if t then Inr True else py_in b p)"

text \<open>The body of \<open>if 'flatrate' in providers_data\<close>.\<close>

definition flatrate_part :: "py \<Rightarrow> py_error + parsed" where
  "flatrate_part providers_data =
     ebind (py_getitem providers_data ''flatrate'') (\<lambda>fl.
     ebind (py_iter fl) (\<lambda>ps.
     ebind (map_result (\<lambda>p. py_getitem p ''provider_name'') ps) (\<lambda>platforms.
     ebind (py_any (py_in ''Netflix'') platforms) (\<lambda>netflix.
     ebind (py_any (in_or ''Prime'' ''Amazon'') platforms) (\<lambda>prime.
     ebind (py_any (py_in ''Disney'') platforms) (\<lambda>disney.
     ebind (py_any (py_in ''Hulu'') platforms) (\<lambda>hulu.
     ebind (py_any (in_or ''HBO'' ''Max'') platforms) (\<lambda>hbo.
       Inr (parsed_init
              \<lparr> available_on_streaming := True, streaming_platforms := platforms,
                total_platforms := length platforms, on_netflix := netflix,
                on_prime := prime, on_disney := disney, on_hulu := hulu,
                on_hbo := hbo \<rparr>)))))))))"

definition parse_providers :: "py \<Rightarrow> py_error + parsed" where
  "parse_providers providers_data =
     ebind (py_in ''flatrate'' providers_data) (\<lambda>has_flatrate.
     ebind (if has_flatrate then flatrate_part providers_data else Inr parsed_init) (\<lambda>p.
     ebind (py_in ''rent'' providers_data) (\<lambda>rent.
     ebind (py_in ''buy'' providers_data) (\<lambda>buy.
       Inr (p \<lparr> available_to_rent := rent, available_to_buy := buy \<rparr>)))))"

subsection \<open>\<open>StreamingEnricher.categorize_release_strategy\<close>\<close>

text \<open>
  A table row maps column names to cells; \<open>row.get(k, d)\<close> is \<open>d\<close> for a column the row
  does not have. The arrow of the label \<open>Theatrical \<rightarrow> Streaming\<close> is U+2192, three bytes
  in UTF-8.
\<close>

type_synonym row = "string \<Rightarrow> py option"

definition row_get :: "row \<Rightarrow> string \<Rightarrow> py \<Rightarrow> py" where
  "row_get r k d = (case r k of None \<Rightarrow> d | Some v \<Rightarrow> v)"

definition theatrical_to_streaming :: string where
  "theatrical_to_streaming = ''Theatrical '' @ [CHR 0xE2, CHR 0x86, CHR 0x92] @ '' Streaming''"

definition theatrical_only :: string where
  "theatrical_only = ''Theatrical Only''"

definition streaming_first :: string where
  "streaming_first = ''Streaming-First''"

definition limited_theatrical :: string where
  "limited_theatrical = ''Limited Theatrical''"

definition categorize_release_strategy :: "row \<Rightarrow> py_error + string" where
  "categorize_release_strategy r =
     (let revenue = row_get r ''revenue'' (PInt 0);
          budget = row_get r ''budget'' (PInt 0);
          on_streaming = row_get r ''available_on_streaming'' (PBool False)
      in ebind (py_gt revenue 50000000) (\<lambda>high.
         if high then
           Inr (if py_truthy on_streaming then theatrical_to_streaming else theatrical_only)
         else
           ebind (ebind (py_lt revenue 10000000) (\<lambda>low.
                    if low then py_gt budget 0 else Inr False)) (\<lambda>low_with_budget.
           if low_with_budget then
             Inr (if py_truthy on_streaming then streaming_first else limited_theatrical)
           else
             Inr (if py_truthy on_streaming then theatrical_to_streaming
                  else theatrical_only))))"

text \<open>
  The platform names of a payload's subscription list, read off the payload as the
  specification describes it: the \<open>provider_name\<close> strings of the entries under
  \<open>flatrate\<close>. A payload has the service's shape when it is a dictionary whose
  \<open>flatrate\<close> value, if there is one, is a list of entries that each carry a string
  \<open>provider_name\<close>.
\<close>

fun name_of :: "py \<Rightarrow> string list" where
  "name_of (PDict items) =
     (case map_of items ''provider_name'' of Some (PStr n) \<Rightarrow> [n] | _ \<Rightarrow> [])"
| "name_of x = []"

fun flatrate_names :: "py \<Rightarrow> string list" where
  "flatrate_names (PDict kvs) =
     (case map_of kvs ''flatrate'' of
        Some (PList ps) \<Rightarrow> concat (map name_of ps)
      | _ \<Rightarrow> [])"
| "flatrate_names x = []"

fun provider_entry_ok :: "py \<Rightarrow> bool" where
  "provider_entry_ok (PDict items) =
     (case map_of items ''provider_name'' of Some (PStr n) \<Rightarrow> True | _ \<Rightarrow> False)"
| "provider_entry_ok x = False"

fun payload_ok :: "py \<Rightarrow> bool" where
  "payload_ok (PDict kvs) =
     (case map_of kvs ''flatrate'' of
        None \<Rightarrow> True
      | Some (PList ps) \<Rightarrow> list_all provider_entry_ok ps
      | Some x \<Rightarrow> False)"
| "payload_ok x = False"

section \<open>The service and the calls made to it\<close>

text \<open>
  Every \<open>requests.get\<close> of the scripts is one request: the base address, the endpoint
  with what the URL and the parameters carry, and the credential sent as \<open>api_key\<close>
  (\<open>None\<close> when \<open>os.getenv\<close> found no value). The call either raises a
  \<open>RequestException\<close> (no connection, an error status at \<open>raise_for_status\<close>, a
  body that is not JSON) or gives the decoded body. The service may answer the same request
  differently each time: its answer depends on how many calls were made before. The calls
  made so far are the state every fetching function passes on; \<open>time.sleep\<close> and the
  console output are left out.
\<close>

datatype endpoint =
    GenreList
  | Discover int int
  | MovieDetails py
  | WatchProviders py

datatype request = Request (req_base: "string option") (req_endpoint: endpoint)
  (req_key: "string option")

datatype response = Failed | Body py

type_synonym service = "nat \<Rightarrow> request \<Rightarrow> response"

type_synonym calls = "request list"

definition http_get :: "service \<Rightarrow> request \<Rightarrow> calls \<Rightarrow> response \<times> calls" where
  "http_get svc rq tr = (svc (length tr) rq, tr @ [rq])"

text \<open>How a run of a script's \<open>main\<close> ends.\<close>

datatype 'a run = Saved 'a | MissingInput | Uncaught py_error

record client =
  api_key :: "string option"
  base_url :: "string option"

subsection \<open>\<open>StreamingEnricher.get_watch_providers\<close>\<close>

definition get_watch_providers :: "client \<Rightarrow> service \<Rightarrow> py \<Rightarrow> calls \<Rightarrow> (py_error + py) \<times> calls" where
  "get_watch_providers c svc movie_id tr =
     (case http_get svc (Request (base_url c) (WatchProviders movie_id) (api_key c)) tr of
        (Failed, tr') \<Rightarrow> (Inr (PDict []), tr')
      | (Body data, tr') \<Rightarrow>
          (ebind (py_get data ''results'' (PDict [])) (\<lambda>results.
             py_get results ''US'' (PDict [])), tr'))"

subsection \<open>\<open>StreamingEnricher.enrich_dataset\<close> and \<open>main\<close>\<close>

text \<open>The ten columns are first set to \<open>None\<close> in every row.\<close>

definition init_cols :: "row \<Rightarrow> row" where
  "init_cols r =
     r(''available_on_streaming'' \<mapsto> PNone, ''streaming_platforms'' \<mapsto> PNone,
       ''available_to_rent'' \<mapsto> PNone, ''available_to_buy'' \<mapsto> PNone,
       ''on_netflix'' \<mapsto> PNone, ''on_prime'' \<mapsto> PNone, ''on_disney'' \<mapsto> PNone,
       ''on_hulu'' \<mapsto> PNone, ''on_hbo'' \<mapsto> PNone, ''total_platforms'' \<mapsto> PNone)"

text \<open>\<open>for key, value in parsed.items(): df.at[idx, key] = value\<close>\<close>

definition set_parsed :: "row \<Rightarrow> parsed \<Rightarrow> row" where
  "set_parsed r p =
     r(''available_on_streaming'' \<mapsto> PBool (available_on_streaming p),
       ''streaming_platforms'' \<mapsto> PList (streaming_platforms p),
       ''available_to_rent'' \<mapsto> PBool (available_to_rent p),
       ''available_to_buy'' \<mapsto> PBool (available_to_buy p),
       ''on_netflix'' \<mapsto> PBool (on_netflix p), ''on_prime'' \<mapsto> PBool (on_prime p),
       ''on_disney'' \<mapsto> PBool (on_disney p), ''on_hulu'' \<mapsto> PBool (on_hulu p),
       ''on_hbo'' \<mapsto> PBool (on_hbo p),
       ''total_platforms'' \<mapsto> PInt (int (total_platforms p)))"

text \<open>
  The loop over the rows: \<open>todo\<close> are the rows still to visit, \<open>updated\<close> the rows already
  written. \<open>row['movie_id']\<close> raises \<open>KeyError\<close> when the table has no such column.
\<close>

fun enrich_rows :: "client \<Rightarrow> service \<Rightarrow> row list \<Rightarrow> row list \<Rightarrow> calls
    \<Rightarrow> (py_error + row list) \<times> calls" where
  "enrich_rows c svc [] updated tr = (Inr updated, tr)"
| "enrich_rows c svc (r # todo) updated tr =
     (case r ''movie_id'' of
        None \<Rightarrow> (Inl KeyError, tr)
      | Some movie_id \<Rightarrow>
          (case get_watch_providers c svc movie_id tr of
             (Inl e, tr') \<Rightarrow> (Inl e, tr')
           | (Inr providers, tr') \<Rightarrow>
               (case parse_providers providers of
                  Inl e \<Rightarrow> (Inl e, tr')
                | Inr p \<Rightarrow> enrich_rows c svc todo (updated @ [set_parsed r p]) tr')))"

text \<open>\<open>df['release_strategy'] = df.apply(self.categorize_release_strategy, axis=1)\<close>\<close>

definition add_release_strategy :: "row list \<Rightarrow> py_error + row list" where
  "add_release_strategy rows =
     ebind (map_result categorize_release_strategy rows) (\<lambda>labels.
       Inr (map (\<lambda>(r, l). r(''release_strategy'' \<mapsto> PStr l)) (zip rows labels)))"

definition enrich_dataset :: "client \<Rightarrow> service \<Rightarrow> row list \<Rightarrow> calls
    \<Rightarrow> (py_error + row list) \<times> calls" where
  "enrich_dataset c svc df tr =
     (case enrich_rows c svc (map init_cols df) [] tr of
        (Inl e, tr') \<Rightarrow> (Inl e, tr')
      | (Inr rows, tr') \<Rightarrow> (add_release_strategy rows, tr'))"

text \<open>
  \<open>main\<close> of the Enricher, from the start to the saved table. \<open>file\<close> is the content of
  \<open>theatrical_data_raw.csv\<close>, \<open>None\<close> when the file does not exist; \<open>key\<close> and
  \<open>base\<close> are \<open>TMDB_API_KEY\<close> and \<open>TMDB_BASE_URL\<close>. Of the console summary only
  \<open>df_enriched[sample_cols]\<close> matters before the table is saved: it raises
  \<open>KeyError\<close> when the table lacks one of the columns \<open>title\<close>, \<open>release_year\<close>,
  \<open>revenue\<close> (the other columns it names were added by the enrichment). What is printed
  after the save is left out.
\<close>

definition has_sample_cols :: "row \<Rightarrow> bool" where
  "has_sample_cols r \<longleftrightarrow>
     r ''title'' \<noteq> None \<and> r ''release_year'' \<noteq> None \<and> r ''revenue'' \<noteq> None"

definition enricher_main :: "string option \<Rightarrow> string option \<Rightarrow> service \<Rightarrow> row list option
    \<Rightarrow> row list run \<times> calls" where
  "enricher_main key base svc file =
     (case file of
        None \<Rightarrow> (MissingInput, [])
      | Some df \<Rightarrow>
          (case enrich_dataset \<lparr> api_key = key, base_url = base \<rparr> svc df [] of
             (Inl e, tr) \<Rightarrow> (Uncaught e, tr)
           | (Inr rows, tr) \<Rightarrow>
               (if list_all has_sample_cols rows then Saved rows else Uncaught KeyError, tr)))"

section \<open>Theatrical Collector: \<open>collect_theatrical_data.py\<close>\<close>

subsection \<open>The three fetching methods of \<open>TMDbCollector\<close>\<close>

text \<open>
  A dictionary key must be hashable: a list or a dictionary as key raises \<open>TypeError\<close>.
\<close>

fun py_hashable :: "py \<Rightarrow> bool" where
  "py_hashable (PList xs) = False"
| "py_hashable (PDict kvs) = False"
| "py_hashable x = True"

text \<open>
  \<open>get_genres\<close>: what \<open>response.json()['genres']\<close> and the dictionary comprehension
  raise is not a \<open>RequestException\<close> and is not caught. The mapping is stored in
  \<open>self.genres_dict\<close>, which nothing reads afterwards.
\<close>

definition genre_item :: "py \<Rightarrow> py_error + (py \<times> py)" where
  "genre_item g =
     ebind (py_getitem g ''id'') (\<lambda>k.
     ebind (py_getitem g ''name'') (\<lambda>v.
       if py_hashable k then Inr (k, v) else Inl TypeError))"

definition get_genres :: "client \<Rightarrow> service \<Rightarrow> calls \<Rightarrow> (py_error + (py \<times> py) list) \<times> calls" where
  "get_genres c svc tr =
     (case http_get svc (Request (base_url c) GenreList (api_key c)) tr of
        (Failed, tr') \<Rightarrow> (Inr [], tr')
      | (Body data, tr') \<Rightarrow>
          (ebind (py_getitem data ''genres'') (\<lambda>genres.
           ebind (py_iter genres) (map_result genre_item)), tr'))"

text \<open>\<open>discover_movies\<close> and \<open>get_movie_details\<close> return \<open>None\<close> when the call fails.\<close>

definition discover_movies :: "client \<Rightarrow> service \<Rightarrow> int \<Rightarrow> int \<Rightarrow> calls \<Rightarrow> py \<times> calls" where
  "discover_movies c svc year page tr =
     (case http_get svc (Request (base_url c) (Discover year page) (api_key c)) tr of
        (Failed, tr') \<Rightarrow> (PNone, tr')
      | (Body data, tr') \<Rightarrow> (data, tr'))"

definition get_movie_details :: "client \<Rightarrow> service \<Rightarrow> py \<Rightarrow> calls \<Rightarrow> py \<times> calls" where
  "get_movie_details c svc movie_id tr =
     (case http_get svc (Request (base_url c) (MovieDetails movie_id) (api_key c)) tr of
        (Failed, tr') \<Rightarrow> (PNone, tr')
      | (Body data, tr') \<Rightarrow> (data, tr'))"

subsection \<open>The movie record built in \<open>collect_year_data\<close>\<close>

record movie =
  movie_id :: py
  title :: py
  release_date :: py
  budget :: py
  revenue :: py
  runtime :: py
  vote_average :: py
  vote_count :: py
  popularity :: py
  original_language :: py
  genre_ids :: "py list"
  genres :: "py list"
  primary_genre :: py
  production_companies :: "py list"
  production_countries :: "py list"
  status :: py
  tagline :: py

text \<open>
  \<open>x[0]\<close>: the first element of a list, the first character of a string;
  \<open>IndexError\<close> when there is none. A dictionary of string keys has no key \<open>0\<close>.
\<close>

fun py_first :: "py \<Rightarrow> py_error + py" where
  "py_first (PList []) = Inl IndexError"
| "py_first (PList (x # xs)) = Inr x"
| "py_first (PStr []) = Inl IndexError"
| "py_first (PStr (c # cs)) = Inr (PStr [c])"
| "py_first (PDict kvs) = Inl KeyError"
| "py_first x = Inl TypeError"

text \<open>
  \<open>x[:3]\<close>: the first three elements of a list or characters of a string. The other values
  cannot be sliced (a dictionary raises \<open>TypeError\<close> up to Python 3.11 and \<open>KeyError\<close>
  from 3.12 on; the model takes the former).
\<close>

fun py_take3 :: "py \<Rightarrow> py_error + py" where
  "py_take3 (PList xs) = Inr (PList (take 3 xs))"
| "py_take3 (PStr s) = Inr (PStr (take 3 s))"
| "py_take3 x = Inl TypeError"

text \<open>\<open>[g[k] for g in details.get(field, [])]\<close>\<close>

definition names_under :: "py \<Rightarrow> string \<Rightarrow> string \<Rightarrow> py_error + py list" where
  "names_under details field k =
     ebind (py_get details field (PList [])) (\<lambda>xs.
     ebind (py_iter xs) (map_result (\<lambda>g. py_getitem g k)))"

text \<open>
  \<open>details.get('genres', [{}])[0].get('name') if details.get('genres') else None\<close>:
  the condition is evaluated first.
\<close>

definition primary_genre_of :: "py \<Rightarrow> py_error + py" where
  "primary_genre_of details =
     ebind (py_get details ''genres'' PNone) (\<lambda>c.
       if py_truthy c then
         ebind (py_get details ''genres'' (PList [PDict []])) (\<lambda>gs.
         ebind (py_first gs) (\<lambda>g. py_get g ''name'' PNone))
       else Inr PNone)"

text \<open>\<open>[c['name'] for c in details.get('production_companies', [])[:3]]\<close>\<close>

definition company_names_of :: "py \<Rightarrow> py_error + py list" where
  "company_names_of details =
     ebind (py_get details ''production_companies'' (PList [])) (\<lambda>cs.
     ebind (py_take3 cs) (\<lambda>top.
     ebind (py_iter top) (map_result (\<lambda>c. py_getitem c ''name''))))"

text \<open>The dictionary literal \<open>movie_data\<close>; its values are evaluated in the order written.\<close>

definition movie_data_of :: "py \<Rightarrow> py \<Rightarrow> py_error + movie" where
  "movie_data_of mid details =
     ebind (py_get details ''title'' PNone) (\<lambda>v_title.
     ebind (py_get details ''release_date'' PNone) (\<lambda>v_release_date.
     ebind (py_get details ''budget'' (PInt 0)) (\<lambda>v_budget.
     ebind (py_get details ''revenue'' (PInt 0)) (\<lambda>v_revenue.
     ebind (py_get details ''runtime'' PNone) (\<lambda>v_runtime.
     ebind (py_get details ''vote_average'' PNone) (\<lambda>v_vote_average.
     ebind (py_get details ''vote_count'' PNone) (\<lambda>v_vote_count.
     ebind (py_get details ''popularity'' PNone) (\<lambda>v_popularity.
     ebind (py_get details ''original_language'' PNone) (\<lambda>v_original_language.
     ebind (names_under details ''genres'' ''id'') (\<lambda>v_genre_ids.
     ebind (names_under details ''genres'' ''name'') (\<lambda>v_genres.
     ebind (primary_genre_of details) (\<lambda>v_primary_genre.
     ebind (company_names_of details) (\<lambda>v_companies.
     ebind (names_under details ''production_countries'' ''iso_3166_1'') (\<lambda>v_countries.
     ebind (py_get details ''status'' PNone) (\<lambda>v_status.
     ebind (py_get details ''tagline'' PNone) (\<lambda>v_tagline.
       Inr \<lparr> movie_id = mid, title = v_title, release_date = v_release_date,
             budget = v_budget, revenue = v_revenue, runtime = v_runtime,
             vote_average = v_vote_average, vote_count = v_vote_count,
             popularity = v_popularity, original_language = v_original_language,
             genre_ids = v_genre_ids, genres = v_genres, primary_genre = v_primary_genre,
             production_companies = v_companies, production_countries = v_countries,
             status = v_status, tagline = v_tagline \<rparr>))))))))))))))))"

text \<open>
  A detail response has the service's shape when it is a dictionary whose
  \<open>production_companies\<close> and \<open>production_countries\<close>, if present, are lists of
  entries that carry a \<open>name\<close>, respectively an \<open>iso_3166_1\<close>.
\<close>

fun entry_has :: "string \<Rightarrow> py \<Rightarrow> bool" where
  "entry_has k (PDict items) = (map_of items k \<noteq> None)"
| "entry_has k x = False"

fun entries_ok :: "string \<Rightarrow> py option \<Rightarrow> bool" where
  "entries_ok k None = True"
| "entries_ok k (Some (PList xs)) = list_all (entry_has k) xs"
| "entries_ok k (Some x) = False"

fun detail_ok :: "py \<Rightarrow> bool" where
  "detail_ok (PDict kvs) =
     (entries_ok ''name'' (map_of kvs ''production_companies'')
      \<and> entries_ok ''iso_3166_1'' (map_of kvs ''production_countries''))"
| "detail_ok x = False"

subsection \<open>\<open>TMDbCollector.collect_year_data\<close>\<close>

text \<open>The loop \<open>for movie in movies\<close>; \<open>movies_data\<close> is the list built so far.\<close>

fun collect_movies :: "client \<Rightarrow> service \<Rightarrow> py list \<Rightarrow> movie list \<Rightarrow> calls
    \<Rightarrow> (py_error + movie list) \<times> calls" where
  "collect_movies c svc [] movies_data tr = (Inr movies_data, tr)"
| "collect_movies c svc (m # rest) movies_data tr =
     (case py_getitem m ''id'' of
        Inl e \<Rightarrow> (Inl e, tr)
      | Inr mid \<Rightarrow>
          (case get_movie_details c svc mid tr of
             (details, tr') \<Rightarrow>
               if py_truthy details then
                 (case movie_data_of mid details of
                    Inl e \<Rightarrow> (Inl e, tr')
                  | Inr md \<Rightarrow> collect_movies c svc rest (movies_data @ [md]) tr')
               else collect_movies c svc rest movies_data tr'))"

text \<open>\<open>page >= x\<close> for the integer \<open>page\<close>.\<close>

fun py_ge_page :: "int \<Rightarrow> py \<Rightarrow> py_error + bool" where
  "py_ge_page page (PInt n) = Inr (page \<ge> n)"
| "py_ge_page page (PFloat x) = Inr (real_of_int page \<ge> x)"
| "py_ge_page page (PBool b) = Inr (page \<ge> (if b then 1 else 0))"
| "py_ge_page page x = Inl TypeError"

text \<open>
  The loop \<open>for page in range(1, max_pages + 1)\<close> over the pages still to fetch. The
  two \<open>break\<close>s end the loop with the movies collected so far.
\<close>

fun collect_pages :: "client \<Rightarrow> service \<Rightarrow> int \<Rightarrow> int list \<Rightarrow> movie list \<Rightarrow> calls
    \<Rightarrow> (py_error + movie list) \<times> calls" where
  "collect_pages c svc year [] movies_data tr = (Inr movies_data, tr)"
| "collect_pages c svc year (page # pages) movies_data tr =
     (case discover_movies c svc year page tr of
        (discover_results, tr1) \<Rightarrow>
          if \<not> py_truthy discover_results then (Inr movies_data, tr1)
          else
            (case py_in ''results'' discover_results of
               Inl e \<Rightarrow> (Inl e, tr1)
             | Inr has_results \<Rightarrow>
                 if \<not> has_results then (Inr movies_data, tr1)
                 else
                   (case ebind (py_getitem discover_results ''results'') py_iter of
                      Inl e \<Rightarrow> (Inl e, tr1)
                    | Inr movies \<Rightarrow>
                        (case collect_movies c svc movies movies_data tr1 of
                           (Inl e, tr2) \<Rightarrow> (Inl e, tr2)
                         | (Inr movies_data', tr2) \<Rightarrow>
                             (case ebind (py_get discover_results ''total_pages'' (PInt 0))
                                     (py_ge_page page) of
                                Inl e \<Rightarrow> (Inl e, tr2)
                              | Inr last_page \<Rightarrow>
                                  if last_page then (Inr movies_data', tr2)
                                  else collect_pages c svc year pages movies_data' tr2)))))"

definition collect_year_data :: "client \<Rightarrow> service \<Rightarrow> int \<Rightarrow> int \<Rightarrow> calls
    \<Rightarrow> (py_error + movie list) \<times> calls" where
  "collect_year_data c svc year max_pages tr =
     collect_pages c svc year [1..max_pages] [] tr"

subsection \<open>\<open>main\<close> of the Collector\<close>

text \<open>The loop \<open>for year in years\<close> with \<open>all_movies.extend(year_movies)\<close>.\<close>

fun collect_years :: "client \<Rightarrow> service \<Rightarrow> int \<Rightarrow> int list \<Rightarrow> movie list \<Rightarrow> calls
    \<Rightarrow> (py_error + movie list) \<times> calls" where
  "collect_years c svc max_pages [] all_movies tr = (Inr all_movies, tr)"
| "collect_years c svc max_pages (year # years) all_movies tr =
     (case collect_year_data c svc year max_pages tr of
        (Inl e, tr') \<Rightarrow> (Inl e, tr')
      | (Inr year_movies, tr') \<Rightarrow>
          collect_years c svc max_pages years (all_movies @ year_movies) tr')"

text \<open>
  The first part of \<open>main\<close>, up to the end of the collection: the collector is built from
  \<open>TMDB_API_KEY\<close> and \<open>TMDB_BASE_URL\<close> as \<open>os.getenv\<close> returned them, the genres
  are loaded, then the six years are collected with five pages each.
\<close>

definition main_collect :: "string option \<Rightarrow> string option \<Rightarrow> service
    \<Rightarrow> (py_error + movie list) \<times> calls" where
  "main_collect key base svc =
     (let collector = \<lparr> api_key = key, base_url = base \<rparr> in
      case get_genres collector svc [] of
        (Inl e, tr) \<Rightarrow> (Inl e, tr)
      | (Inr genres_dict, tr) \<Rightarrow>
          collect_years collector svc 5 [2019, 2020, 2021, 2022, 2023, 2024] [] tr)"

text \<open>
  The second part works on the table. The three derived columns are computed by pandas,
  cell by cell: \<open>roi_op\<close> is \<open>((revenue - budget) / budget) * 100\<close>, \<open>sub_op\<close> is
  \<open>revenue - budget\<close>, \<open>year_op\<close> is \<open>pd.to_datetime(...).dt.year\<close>. Each of them
  raises on cells it cannot work with (a date it cannot read, two boolean columns). They
  are parameters of the table step; \<open>float64_ops\<close> below fixes what they compute on
  integer cells.
\<close>

record 'v pandas_ops =
  sub_op :: "py \<Rightarrow> py \<Rightarrow> py_error + 'v"
  roi_op :: "py \<Rightarrow> py \<Rightarrow> py_error + 'v"
  year_op :: "py \<Rightarrow> py_error + 'v"

record 'v table_row =
  movie_of :: movie
  roi :: 'v
  profit :: 'v
  release_year :: 'v

text \<open>
  One cell of \<open>df[column] > 0\<close>: a missing value (\<open>None\<close>, \<open>NaN\<close> in a numeric column)
  compares false, a number is compared, anything else raises.
\<close>

fun cell_gt0 :: "py \<Rightarrow> py_error + bool" where
  "cell_gt0 PNone = Inr False"
| "cell_gt0 x = py_gt x 0"

text \<open>
  \<open>df[(df['budget'] > 0) & (df['revenue'] > 0)]\<close>: the two masks are computed over the
  whole table, then the rows where both hold are kept. A table built from no movie has no
  column, so \<open>df['budget']\<close> raises \<open>KeyError\<close>.
\<close>

definition filter_financial :: "movie list \<Rightarrow> py_error + movie list" where
  "filter_financial df =
     (if df = [] then Inl KeyError
      else
        ebind (map_result (\<lambda>m. cell_gt0 (budget m)) df) (\<lambda>budget_mask.
        ebind (map_result (\<lambda>m. cell_gt0 (revenue m)) df) (\<lambda>revenue_mask.
          Inr (map fst (filter (\<lambda>(m, keep). keep)
                 (zip df (map (\<lambda>(b, r). b \<and> r) (zip budget_mask revenue_mask))))))))"

text \<open>
  The filter, then the columns \<open>roi\<close>, \<open>profit\<close> and \<open>release_year\<close> in the order
  the script adds them; each is computed over all rows of the filtered table.
\<close>

definition process_table :: "'v pandas_ops \<Rightarrow> movie list \<Rightarrow> py_error + 'v table_row list" where
  "process_table ops all_movies =
     ebind (filter_financial all_movies) (\<lambda>df_filtered.
     ebind (map_result (\<lambda>m. roi_op ops (revenue m) (budget m)) df_filtered) (\<lambda>rois.
     ebind (map_result (\<lambda>m. sub_op ops (revenue m) (budget m)) df_filtered) (\<lambda>profits.
     ebind (map_result (\<lambda>m. year_op ops (release_date m)) df_filtered) (\<lambda>years.
       Inr (map (\<lambda>(m, r, p, y).
              \<lparr> movie_of = m, roi = r, profit = p, release_year = y \<rparr>)
            (zip df_filtered (zip rois (zip profits years))))))))"

definition collector_main :: "'v pandas_ops \<Rightarrow> string option \<Rightarrow> string option \<Rightarrow> service
    \<Rightarrow> 'v table_row list run \<times> calls" where
  "collector_main ops key base svc =
     (case main_collect key base svc of
        (Inl e, tr) \<Rightarrow> (Uncaught e, tr)
      | (Inr all_movies, tr) \<Rightarrow>
          (case process_table ops all_movies of
             Inl e \<Rightarrow> (Uncaught e, tr)
           | Inr table \<Rightarrow> (Saved table, tr)))"

subsection \<open>The derived columns in float64\<close>

text \<open>
  On integer cells \<open>((revenue - budget) / budget) * 100\<close> is computed in double
  precision: the difference is exact, the division gives the double nearest to the quotient
  and the multiplication the double nearest to the product (ties go to the even mantissa).
  A double is a pair of an integer mantissa and an exponent and stands for
  \<open>mantissa * 2 ^ exponent\<close>; a nonzero result has a mantissa of 53 bits.
\<close>

text \<open>The integer nearest to \<open>s\<close>, the even one of two equally near.\<close>

definition round_even :: "real \<Rightarrow> int" where
  "round_even s =
     (let d = \<lfloor>s\<rfloor>; f = s - of_int d in
      if f < 1 / 2 then d else if 1 / 2 < f then d + 1 else if even d then d else d + 1)"

text \<open>
  The exponent of the leading bit of \<open>p / q\<close> for positive \<open>p\<close> and \<open>q\<close>: the difference
  of the bit lengths, or one less.
\<close>

definition ilog2 :: "int \<Rightarrow> int \<Rightarrow> int" where
  "ilog2 p q =
     (let k = bitlen p - bitlen q in
      if power_int 2 k * real_of_int q \<le> real_of_int p then k else k - 1)"

text \<open>The double nearest to \<open>p / q\<close>, for \<open>q > 0\<close>.\<close>

definition f64_quot :: "int \<Rightarrow> int \<Rightarrow> int \<times> int" where
  "f64_quot p q =
     (if p = 0 then (0, 0)
      else let e = ilog2 \<bar>p\<bar> q - 52 in
        (sgn p * round_even (real_of_int \<bar>p\<bar> / (real_of_int q * power_int 2 e)), e))"

definition f64_val :: "int \<times> int \<Rightarrow> real" where
  "f64_val f = real_of_int (fst f) * power_int 2 (snd f)"

text \<open>The double nearest to \<open>k\<close> times the double \<open>f\<close>.\<close>

definition f64_times :: "int \<Rightarrow> int \<times> int \<Rightarrow> int \<times> int" where
  "f64_times k f = f64_quot (k * fst f * 2 ^ nat (snd f)) (2 ^ nat (- snd f))"

definition roi_f64 :: "int \<Rightarrow> int \<Rightarrow> real" where
  "roi_f64 rv bv = f64_val (f64_times 100 (f64_quot (rv - bv) bv))"

text \<open>
  Two integer cells whose values and difference a double holds exactly, so that it makes
  no difference whether the columns are \<open>int64\<close> or \<open>float64\<close>.
\<close>

definition exact_cells :: "int \<Rightarrow> int \<Rightarrow> bool" where
  "exact_cells rv bv \<longleftrightarrow> \<bar>rv\<bar> < 2 ^ 53 \<and> \<bar>bv\<bar> < 2 ^ 53 \<and> \<bar>rv - bv\<bar> < 2 ^ 53"

fun roi_cells :: "real pandas_ops \<Rightarrow> py \<Rightarrow> py \<Rightarrow> py_error + real" where
  "roi_cells other (PInt rv) (PInt bv) =
     (if 0 < bv \<and> exact_cells rv bv then Inr (roi_f64 rv bv)
      else roi_op other (PInt rv) (PInt bv))"
| "roi_cells other r b = roi_op other r b"

fun profit_cells :: "real pandas_ops \<Rightarrow> py \<Rightarrow> py \<Rightarrow> py_error + real" where
  "profit_cells other (PInt rv) (PInt bv) =
     (if exact_cells rv bv then Inr (real_of_int (rv - bv))
      else sub_op other (PInt rv) (PInt bv))"
| "profit_cells other r b = sub_op other r b"

text \<open>
  The operations of pandas with the integer cells fixed; what they do on other cells, and
  the reading of dates, stays with \<open>other\<close>.
\<close>

definition float64_ops :: "real pandas_ops \<Rightarrow> real pandas_ops" where
  "float64_ops other =
     \<lparr> sub_op = profit_cells other, roi_op = roi_cells other, year_op = year_op other \<rparr>"


section \<open>Sample services and runs\<close>

text \<open>
  The derived columns of a sample run are kept symbolic: each cell records the operation
  and the two cells it was computed from.
\<close>

datatype derived = Difference py py | Percentage py py | YearOf py

definition symbolic_ops :: "derived pandas_ops" where
  "symbolic_ops =
     \<lparr> sub_op = (\<lambda>r b. Inr (Difference r b)), roi_op = (\<lambda>r b. Inr (Percentage r b)),
       year_op = (\<lambda>d. Inr (YearOf d)) \<rparr>"

text \<open>
  Operations that read every date as 2019 and raise on the cells that \<open>float64_ops\<close>
  leaves to them.
\<close>

definition sample_other :: "real pandas_ops" where
  "sample_other =
     \<lparr> sub_op = (\<lambda>r b. Inl TypeError), roi_op = (\<lambda>r b. Inl TypeError),
       year_op = (\<lambda>d. Inr 2019) \<rparr>"

text \<open>A collected movie with revenue 7 and budget 3.\<close>

definition small_movie :: movie where
  "small_movie =
     \<lparr> movie_id = PInt 9, title = PStr ''S'', release_date = PStr ''2019-01-01'',
       budget = PInt 3, revenue = PInt 7, runtime = PNone, vote_average = PNone,
       vote_count = PNone, popularity = PNone, original_language = PNone,
       genre_ids = [], genres = [], primary_genre = PNone, production_companies = [],
       production_countries = [], status = PNone, tagline = PNone \<rparr>"

text \<open>
  A service that knows one page of three movies for 2019: the first with budget and
  revenue, the second without a budget, the third without a detail record.
\<close>

definition demo_service :: service where
  "demo_service n rq =
     (case req_endpoint rq of
        GenreList \<Rightarrow> Body (PDict [(''genres'', PList [PDict [(''id'', PInt 18), (''name'', PStr ''Drama'')]])])
      | Discover y p \<Rightarrow>
          if y = 2019 \<and> p = 1 then
            Body (PDict [(''results'', PList [PDict [(''id'', PInt 1)], PDict [(''id'', PInt 2)],
                                             PDict [(''id'', PInt 3)]]),
                         (''total_pages'', PInt 1)])
          else Failed
      | MovieDetails i \<Rightarrow>
          if i = PInt 1 then
            Body (PDict [(''title'', PStr ''A''), (''budget'', PInt 63000000),
                         (''revenue'', PInt 100853753), (''release_date'', PStr ''2019-10-15''),
                         (''genres'', PList [PDict [(''id'', PInt 18), (''name'', PStr ''Drama'')]])])
          else if i = PInt 2 then
            Body (PDict [(''title'', PStr ''B''), (''revenue'', PInt 5000)])
          else Failed
      | WatchProviders i \<Rightarrow> Failed)"

text \<open>A service that rejects every call, as the real one does when no key is sent.\<close>

definition unauthorized :: service where
  "unauthorized n rq = Failed"

text \<open>A service whose first call is lost and which answers every later discovery call.\<close>

definition first_call_lost :: service where
  "first_call_lost n rq =
     (if n = 0 then Failed
      else case req_endpoint rq of
             Discover y p \<Rightarrow> Body (PDict [(''results'', PList []), (''total_pages'', PInt 5)])
           | _ \<Rightarrow> Failed)"

text \<open>One row of the Collector's table, with the columns the Collector writes.\<close>

definition sample_row :: row where
  "sample_row =
     map_of [(''movie_id'', PInt 550), (''title'', PStr ''Fight Club''),
             (''release_date'', PStr ''1999-10-15''), (''budget'', PInt 63000000),
             (''revenue'', PInt 100853753), (''primary_genre'', PStr ''Drama''),
             (''roi'', PFloat 60.1), (''profit'', PInt 37853753),
             (''release_year'', PInt 1999)]"

text \<open>A run is completed when it reached the end and saved its table.\<close>

fun completed :: "'a run \<Rightarrow> bool" where
  "completed (Saved t) = True"
| "completed MissingInput = False"
| "completed (Uncaught e) = False"

section \<open>Properties\<close>

subsection \<open>Auxiliary facts\<close>

lemma str_in_sublist: "str_in n h \<longleftrightarrow> sublist n h"
  by (induction h) (simp_all add: sublist_Cons_right)

lemma py_any_result: "py_any c ps = Inr b \<Longrightarrow> b \<longleftrightarrow> (\<exists>x\<in>set ps. c x = Inr True)"
  by (induction ps) (auto split: sum.splits if_splits)

lemma py_any_strings:
  assumes "\<And>n. c (PStr n) = Inr (q n)"
  shows "py_any c (map PStr ns) = Inr (\<exists>n\<in>set ns. q n)"
  using assms by (induction ns) auto

lemma in_or_string: "in_or a b (PStr n) = Inr (sublist a n \<or> sublist b n)"
  by (simp add: in_or_def str_in_sublist)

lemma py_in_string: "py_in a (PStr n) = Inr (sublist a n)"
  by (simp add: str_in_sublist)

lemma map_result_names:
  "list_all provider_entry_ok ps \<Longrightarrow>
   map_result (\<lambda>p. py_getitem p ''provider_name'') ps = Inr (map PStr (concat (map name_of ps)))"
proof (induction ps)
  case Nil
  then show ?case by simp
next
  case (Cons p ps)
  then obtain items n where "p = PDict items" "map_of items ''provider_name'' = Some (PStr n)"
    by (cases p) (auto split: option.splits py.splits)
  with Cons show ?case by simp
qed

lemma in_keys_map_of: "k \<in> fst ` set kvs \<longleftrightarrow> map_of kvs k \<noteq> None"
  by (simp add: map_of_eq_None_iff)

lemma flatrate_part_ok:
  assumes "map_of kvs ''flatrate'' = Some (PList ps)" "list_all provider_entry_ok ps"
  shows "flatrate_part (PDict kvs) = Inr (parsed_init
              \<lparr> available_on_streaming := True,
                streaming_platforms := map PStr (flatrate_names (PDict kvs)),
                total_platforms := length (flatrate_names (PDict kvs)),
                on_netflix := (\<exists>n\<in>set (flatrate_names (PDict kvs)). sublist ''Netflix'' n),
                on_prime := (\<exists>n\<in>set (flatrate_names (PDict kvs)). sublist ''Prime'' n \<or> sublist ''Amazon'' n),
                on_disney := (\<exists>n\<in>set (flatrate_names (PDict kvs)). sublist ''Disney'' n),
                on_hulu := (\<exists>n\<in>set (flatrate_names (PDict kvs)). sublist ''Hulu'' n),
                on_hbo := (\<exists>n\<in>set (flatrate_names (PDict kvs)). sublist ''HBO'' n \<or> sublist ''Max'' n) \<rparr>)"
  using assms
  by (simp add: flatrate_part_def ebind_def map_result_names
      py_any_strings [where c = "py_in a" and q = "sublist a" for a, OF py_in_string]
      py_any_strings [where c = "in_or a b" and q = "\<lambda>n. sublist a n \<or> sublist b n" for a b, OF in_or_string])

lemma ex_in_four: "P a \<or> P b \<or> P c \<or> P d \<Longrightarrow> \<exists>l\<in>{a, b, c, d}. P l"
  by auto

lemma parse_providers_absent:
  assumes "py_in ''flatrate'' d = Inr False" "py_in ''rent'' d = Inr False"
    "py_in ''buy'' d = Inr False"
  shows "parse_providers d = Inr parsed_init"
  using assms by (simp add: parse_providers_def ebind_def parsed_init_def)

lemma flatrate_part_fields:
  assumes "flatrate_part d = Inr q"
  shows "available_on_streaming q \<and> total_platforms q = length (streaming_platforms q)"
  using assms
  by (auto simp: flatrate_part_def ebind_def parsed_init_def split: sum.splits)

subsection \<open>Release-strategy classification\<close>

text \<open>
  C1. For a row whose revenue and budget cells are the numbers \<open>rvn\<close> and \<open>bdg\<close>
  (an absent column counts as 0) and whose streaming cell has the truth value
  \<open>streaming\<close>, \<open>categorize_release_strategy\<close> returns: \<open>Theatrical \<rightarrow> Streaming\<close> if
  revenue exceeds 50,000,000 and the movie is streaming-available, \<open>Theatrical Only\<close> if
  revenue exceeds 50,000,000 and it is not; \<open>Streaming-First\<close> if revenue is below
  10,000,000, budget is positive and it is streaming-available, \<open>Limited Theatrical\<close> if
  revenue is below 10,000,000, budget is positive and it is not; and in every other case
  (the medium band, a zero budget under 10,000,000 included) \<open>Theatrical \<rightarrow> Streaming\<close>
  if streaming-available, else \<open>Theatrical Only\<close>.
\<close>

theorem categorize_release_strategy_cases:
  assumes "num_val (row_get r ''revenue'' (PInt 0)) = Some rvn"
    and "num_val (row_get r ''budget'' (PInt 0)) = Some bdg"
    and "py_truthy (row_get r ''available_on_streaming'' (PBool False)) = streaming"
  shows "(rvn > 50000000 \<and> streaming \<longrightarrow>
            categorize_release_strategy r = Inr theatrical_to_streaming)
       \<and> (rvn > 50000000 \<and> \<not> streaming \<longrightarrow>
            categorize_release_strategy r = Inr theatrical_only)
       \<and> (rvn < 10000000 \<and> bdg > 0 \<and> streaming \<longrightarrow>
            categorize_release_strategy r = Inr streaming_first)
       \<and> (rvn < 10000000 \<and> bdg > 0 \<and> \<not> streaming \<longrightarrow>
            categorize_release_strategy r = Inr limited_theatrical)
       \<and> (\<not> rvn > 50000000 \<and> \<not> (rvn < 10000000 \<and> bdg > 0) \<longrightarrow>
            categorize_release_strategy r =
              Inr (if streaming then theatrical_to_streaming else theatrical_only))"
proof -
  obtain rv where rv: "row_get r ''revenue'' (PInt 0) = rv" by simp
  obtain bv where bv: "row_get r ''budget'' (PInt 0) = bv" by simp
  from assms(1) rv have r1: "py_gt rv 50000000 = Inr (rvn > 50000000)"
    and r2: "py_lt rv 10000000 = Inr (rvn < 10000000)"
    by (cases rv; auto)+
  from assms(2) bv have b1: "py_gt bv 0 = Inr (bdg > 0)"
    by (cases bv; auto)
  show ?thesis
    using assms(3) by (simp add: categorize_release_strategy_def Let_def ebind_def rv bv r1 r2 b1)
qed

theorem categorize_release_strategy_cases_witness:
  "num_val (row_get (map_of [(''revenue'', PInt 100000000), (''budget'', PInt 20000000),
       (''available_on_streaming'', PBool True)]) ''revenue'' (PInt 0)) = Some 100000000
   \<and> categorize_release_strategy (map_of [(''revenue'', PInt 100000000),
       (''budget'', PInt 20000000), (''available_on_streaming'', PBool True)])
       = Inr theatrical_to_streaming
   \<and> categorize_release_strategy (map_of [(''revenue'', PInt 100000000),
       (''budget'', PInt 20000000), (''available_on_streaming'', PBool False)])
       = Inr theatrical_only
   \<and> categorize_release_strategy (map_of [(''revenue'', PFloat 5000000),
       (''budget'', PFloat 2000000), (''available_on_streaming'', PBool True)])
       = Inr streaming_first
   \<and> categorize_release_strategy (map_of [(''revenue'', PInt 5000000),
       (''budget'', PInt 2000000), (''available_on_streaming'', PBool False)])
       = Inr limited_theatrical
   \<and> categorize_release_strategy (map_of [(''revenue'', PInt 5000000),
       (''budget'', PInt 0), (''available_on_streaming'', PBool True)])
       = Inr theatrical_to_streaming
   \<and> categorize_release_strategy (map_of [(''revenue'', PInt 30000000),
       (''budget'', PInt 2000000)])
       = Inr theatrical_only"
  using
    categorize_release_strategy_cases [of "map_of [(''revenue'', PInt 100000000),
       (''budget'', PInt 20000000), (''available_on_streaming'', PBool True)]"
       100000000 20000000 True]
    categorize_release_strategy_cases [of "map_of [(''revenue'', PInt 100000000),
       (''budget'', PInt 20000000), (''available_on_streaming'', PBool False)]"
       100000000 20000000 False]
    categorize_release_strategy_cases [of "map_of [(''revenue'', PFloat 5000000),
       (''budget'', PFloat 2000000), (''available_on_streaming'', PBool True)]"
       5000000 2000000 True]
    categorize_release_strategy_cases [of "map_of [(''revenue'', PInt 5000000),
       (''budget'', PInt 2000000), (''available_on_streaming'', PBool False)]"
       5000000 2000000 False]
    categorize_release_strategy_cases [of "map_of [(''revenue'', PInt 5000000),
       (''budget'', PInt 0), (''available_on_streaming'', PBool True)]"
       5000000 0 True]
    categorize_release_strategy_cases [of "map_of [(''revenue'', PInt 30000000),
       (''budget'', PInt 2000000)]"
       30000000 2000000 False]
  by (simp add: row_get_def)

text \<open>
  C4. The label depends on the row only through its three cells \<open>revenue\<close>, \<open>budget\<close>
  and \<open>available_on_streaming\<close>: two rows that agree on them get the same result,
  whatever their other columns hold. The classification is total: for every real-number
  revenue and budget, and any streaming cell, a label is returned and it is one of the four.
\<close>

theorem categorize_release_strategy_pure_total:
  "(r1 ''revenue'' = r2 ''revenue'' \<and> r1 ''budget'' = r2 ''budget''
      \<and> r1 ''available_on_streaming'' = r2 ''available_on_streaming''
      \<longrightarrow> categorize_release_strategy r1 = categorize_release_strategy r2)
   \<and> (num_val (row_get r ''revenue'' (PInt 0)) = Some rvn
      \<and> num_val (row_get r ''budget'' (PInt 0)) = Some bdg
      \<longrightarrow> (\<exists>l\<in>{theatrical_to_streaming, theatrical_only, streaming_first, limited_theatrical}.
             categorize_release_strategy r = Inr l))"
proof (intro conjI impI)
  assume "r1 ''revenue'' = r2 ''revenue'' \<and> r1 ''budget'' = r2 ''budget''
      \<and> r1 ''available_on_streaming'' = r2 ''available_on_streaming''"
  then show "categorize_release_strategy r1 = categorize_release_strategy r2"
    by (simp add: categorize_release_strategy_def row_get_def)
next
  assume a: "num_val (row_get r ''revenue'' (PInt 0)) = Some rvn
      \<and> num_val (row_get r ''budget'' (PInt 0)) = Some bdg"
  obtain rv where rv: "row_get r ''revenue'' (PInt 0) = rv" by simp
  obtain bv where bv: "row_get r ''budget'' (PInt 0) = bv" by simp
  from a rv have r1: "py_gt rv 50000000 = Inr (rvn > 50000000)"
    and r2: "py_lt rv 10000000 = Inr (rvn < 10000000)"
    by (cases rv; auto)+
  from a bv have b1: "py_gt bv 0 = Inr (bdg > 0)"
    by (cases bv; auto)
  show "\<exists>l\<in>{theatrical_to_streaming, theatrical_only, streaming_first, limited_theatrical}.
             categorize_release_strategy r = Inr l"
    by (rule ex_in_four)
       (simp add: categorize_release_strategy_def Let_def ebind_def rv bv r1 r2 b1)
qed

theorem categorize_release_strategy_pure_total_witness:
  "map_of [(''title'', PStr ''A''), (''revenue'', PInt 5000000), (''budget'', PInt 2000000),
       (''available_on_streaming'', PBool True)] ''revenue''
     = map_of [(''revenue'', PInt 5000000), (''title'', PStr ''B''), (''budget'', PInt 2000000),
       (''available_on_streaming'', PBool True), (''roi'', PFloat 150)] ''revenue''
   \<and> categorize_release_strategy (map_of [(''title'', PStr ''A''), (''revenue'', PInt 5000000),
       (''budget'', PInt 2000000), (''available_on_streaming'', PBool True)])
     = categorize_release_strategy (map_of [(''revenue'', PInt 5000000), (''title'', PStr ''B''),
       (''budget'', PInt 2000000), (''available_on_streaming'', PBool True),
       (''roi'', PFloat 150)])
   \<and> num_val (row_get (map_of [(''revenue'', PFloat (-3.5)), (''budget'', PInt 7)])
       ''revenue'' (PInt 0)) = Some (-3.5)
   \<and> (\<exists>l\<in>{theatrical_to_streaming, theatrical_only, streaming_first, limited_theatrical}.
         categorize_release_strategy (map_of [(''revenue'', PFloat (-3.5)), (''budget'', PInt 7)])
           = Inr l)"
  using
    categorize_release_strategy_pure_total [of
      "map_of [(''title'', PStr ''A''), (''revenue'', PInt 5000000), (''budget'', PInt 2000000),
       (''available_on_streaming'', PBool True)]"
      "map_of [(''revenue'', PInt 5000000), (''title'', PStr ''B''), (''budget'', PInt 2000000),
       (''available_on_streaming'', PBool True), (''roi'', PFloat 150)]"
      "map_of [(''revenue'', PFloat (-3.5)), (''budget'', PInt 7)]" "-3.5" 7]
  by (simp add: row_get_def)

subsection \<open>Parsing of the provider payload\<close>

text \<open>
  C7. For a payload of the service's shape, \<open>parse_providers\<close> returns a record whose
  platform list is the list of names under \<open>flatrate\<close>, and \<open>on_netflix\<close> holds iff
  some of these names contains \<open>Netflix\<close> as a contiguous, case-sensitive substring;
  \<open>on_prime\<close> iff some name contains \<open>Prime\<close> or \<open>Amazon\<close>, \<open>on_disney\<close> iff
  some name contains \<open>Disney\<close>, \<open>on_hulu\<close> iff some name contains \<open>Hulu\<close>,
  \<open>on_hbo\<close> iff some name contains \<open>HBO\<close> or \<open>Max\<close>.
\<close>

theorem parse_providers_platform_flags:
  assumes "payload_ok d"
  shows "\<exists>p. parse_providers d = Inr p
           \<and> streaming_platforms p = map PStr (flatrate_names d)
           \<and> (on_netflix p \<longleftrightarrow> (\<exists>n\<in>set (flatrate_names d). sublist ''Netflix'' n))
           \<and> (on_prime p \<longleftrightarrow> (\<exists>n\<in>set (flatrate_names d). sublist ''Prime'' n \<or> sublist ''Amazon'' n))
           \<and> (on_disney p \<longleftrightarrow> (\<exists>n\<in>set (flatrate_names d). sublist ''Disney'' n))
           \<and> (on_hulu p \<longleftrightarrow> (\<exists>n\<in>set (flatrate_names d). sublist ''Hulu'' n))
           \<and> (on_hbo p \<longleftrightarrow> (\<exists>n\<in>set (flatrate_names d). sublist ''HBO'' n \<or> sublist ''Max'' n))"
proof -
  from assms obtain kvs where d: "d = PDict kvs"
    by (cases d) auto
  show ?thesis
  proof (cases "map_of kvs ''flatrate''")
    case None
    then show ?thesis
      by (simp add: d parse_providers_def ebind_def in_keys_map_of parsed_init_def)
  next
    case (Some fl)
    with assms d obtain ps where fl: "fl = PList ps" and ok: "list_all provider_entry_ok ps"
      by (cases fl) auto
    from Some fl have m: "map_of kvs ''flatrate'' = Some (PList ps)" by simp
    show ?thesis
      by (simp add: d parse_providers_def ebind_def in_keys_map_of m
          flatrate_part_ok [OF m ok] parsed_init_def del: flatrate_names.simps)
  qed
qed

theorem parse_providers_platform_flags_witness:
  "payload_ok (PDict [(''flatrate'', PList
       [PDict [(''provider_id'', PInt 8), (''provider_name'', PStr ''Netflix'')],
        PDict [(''provider_name'', PStr ''hulu plus'')],
        PDict [(''provider_name'', PStr ''Max Amazon Channel'')]])])
   \<and> (\<exists>p. parse_providers (PDict [(''flatrate'', PList
       [PDict [(''provider_id'', PInt 8), (''provider_name'', PStr ''Netflix'')],
        PDict [(''provider_name'', PStr ''hulu plus'')],
        PDict [(''provider_name'', PStr ''Max Amazon Channel'')]])]) = Inr p
      \<and> streaming_platforms p = [PStr ''Netflix'', PStr ''hulu plus'', PStr ''Max Amazon Channel'']
      \<and> on_netflix p \<and> on_prime p \<and> \<not> on_disney p \<and> \<not> on_hulu p \<and> on_hbo p)"
  using parse_providers_platform_flags [of "PDict [(''flatrate'', PList
       [PDict [(''provider_id'', PInt 8), (''provider_name'', PStr ''Netflix'')],
        PDict [(''provider_name'', PStr ''hulu plus'')],
        PDict [(''provider_name'', PStr ''Max Amazon Channel'')]])]"]
  by (simp add: sublist_code prefix_code)

text \<open>
  C8. A payload that has none of the keys \<open>flatrate\<close>, \<open>rent\<close>, \<open>buy\<close> is parsed
  without error into the record with \<open>available_on_streaming\<close>,
  \<open>available_to_rent\<close>, \<open>available_to_buy\<close> and the five platform flags false, an
  empty platform list and \<open>total_platforms = 0\<close>.
\<close>

theorem parse_providers_no_keys:
  assumes "''flatrate'' \<notin> fst ` set kvs" and "''rent'' \<notin> fst ` set kvs"
    and "''buy'' \<notin> fst ` set kvs"
  shows "parse_providers (PDict kvs) =
           Inr \<lparr> available_on_streaming = False, streaming_platforms = [],
                 available_to_rent = False, available_to_buy = False,
                 on_netflix = False, on_prime = False, on_disney = False, on_hulu = False,
                 on_hbo = False, total_platforms = 0 \<rparr>"
  using assms parse_providers_absent [of "PDict kvs"] by (simp add: parsed_init_def)

theorem parse_providers_no_keys_witness:
  "''flatrate'' \<notin> fst ` set [(''link'', PStr ''https://www.themoviedb.org/movie/550/watch'')]
   \<and> ''rent'' \<notin> fst ` set [(''link'', PStr ''https://www.themoviedb.org/movie/550/watch'')]
   \<and> ''buy'' \<notin> fst ` set [(''link'', PStr ''https://www.themoviedb.org/movie/550/watch'')]
   \<and> parse_providers (PDict [(''link'', PStr ''https://www.themoviedb.org/movie/550/watch'')]) =
           Inr \<lparr> available_on_streaming = False, streaming_platforms = [],
                 available_to_rent = False, available_to_buy = False,
                 on_netflix = False, on_prime = False, on_disney = False, on_hulu = False,
                 on_hbo = False, total_platforms = 0 \<rparr>
   \<and> parse_providers (PDict []) =
           Inr \<lparr> available_on_streaming = False, streaming_platforms = [],
                 available_to_rent = False, available_to_buy = False,
                 on_netflix = False, on_prime = False, on_disney = False, on_hulu = False,
                 on_hbo = False, total_platforms = 0 \<rparr>"
  using parse_providers_no_keys [of "[(''link'', PStr ''https://www.themoviedb.org/movie/550/watch'')]"]
    parse_providers_no_keys [of "[]"]
  by simp

text \<open>
  C10. Whenever \<open>parse_providers\<close> returns a record for a payload:
  \<open>available_on_streaming\<close> holds iff the payload has the key \<open>flatrate\<close> (an empty
  list under it is enough), \<open>total_platforms\<close> is the length of
  \<open>streaming_platforms\<close>, and \<open>available_to_rent\<close>, \<open>available_to_buy\<close> hold iff
  the payload has the key \<open>rent\<close>, respectively \<open>buy\<close>, whether or not it has
  \<open>flatrate\<close>.
\<close>

theorem parse_providers_invariants:
  assumes "parse_providers (PDict kvs) = Inr p"
  shows "(available_on_streaming p \<longleftrightarrow> ''flatrate'' \<in> fst ` set kvs)
       \<and> total_platforms p = length (streaming_platforms p)
       \<and> (available_to_rent p \<longleftrightarrow> ''rent'' \<in> fst ` set kvs)
       \<and> (available_to_buy p \<longleftrightarrow> ''buy'' \<in> fst ` set kvs)"
proof (cases "''flatrate'' \<in> fst ` set kvs")
  case True
  with assms obtain q where q: "flatrate_part (PDict kvs) = Inr q"
    and p: "p = q \<lparr> available_to_rent := ''rent'' \<in> fst ` set kvs,
                    available_to_buy := ''buy'' \<in> fst ` set kvs \<rparr>"
    by (auto simp: parse_providers_def ebind_def split: sum.splits)
  from flatrate_part_fields [OF q] True p show ?thesis by simp
next
  case False
  with assms have "p = parsed_init \<lparr> available_to_rent := ''rent'' \<in> fst ` set kvs,
                    available_to_buy := ''buy'' \<in> fst ` set kvs \<rparr>"
    by (auto simp: parse_providers_def ebind_def)
  with False show ?thesis by (simp add: parsed_init_def)
qed

theorem parse_providers_invariants_witness:
  "parse_providers (PDict [(''flatrate'', PList [])]) =
     Inr \<lparr> available_on_streaming = True, streaming_platforms = [],
           available_to_rent = False, available_to_buy = False,
           on_netflix = False, on_prime = False, on_disney = False, on_hulu = False,
           on_hbo = False, total_platforms = 0 \<rparr>
   \<and> (available_on_streaming \<lparr> available_on_streaming = True, streaming_platforms = [],
           available_to_rent = False, available_to_buy = False,
           on_netflix = False, on_prime = False, on_disney = False, on_hulu = False,
           on_hbo = False, total_platforms = 0 \<rparr>
        \<longleftrightarrow> ''flatrate'' \<in> fst ` set [(''flatrate'', PList [])])
   \<and> parse_providers (PDict [(''buy'', PList [PDict [(''provider_name'', PStr ''Apple TV'')]])]) =
     Inr \<lparr> available_on_streaming = False, streaming_platforms = [],
           available_to_rent = False, available_to_buy = True,
           on_netflix = False, on_prime = False, on_disney = False, on_hulu = False,
           on_hbo = False, total_platforms = 0 \<rparr>"
  using parse_providers_invariants [of "[(''flatrate'', PList [])]"
      "\<lparr> available_on_streaming = True, streaming_platforms = [],
           available_to_rent = False, available_to_buy = False,
           on_netflix = False, on_prime = False, on_disney = False, on_hulu = False,
           on_hbo = False, total_platforms = 0 \<rparr>"]
  by (simp add: parse_providers_def flatrate_part_def ebind_def parsed_init_def)

subsection \<open>Extraction of the movie record\<close>

lemma names_under_no_entries:
  assumes "map_of kvs field = None \<or> map_of kvs field = Some (PList [])"
  shows "names_under (PDict kvs) field k = Inr []"
  using assms by (auto simp: names_under_def ebind_def)

lemma primary_genre_of_no_genres:
  assumes "map_of kvs ''genres'' = None \<or> map_of kvs ''genres'' = Some (PList [])"
  shows "primary_genre_of (PDict kvs) = Inr PNone"
  using assms by (auto simp: primary_genre_of_def ebind_def)

lemma py_take3_no_IndexError: "py_take3 x \<noteq> Inl IndexError"
  by (cases x) auto

lemma py_iter_no_IndexError: "py_iter x \<noteq> Inl IndexError"
  by (cases x) auto

lemma py_getitem_no_IndexError: "py_getitem x k \<noteq> Inl IndexError"
  by (cases x) (auto split: option.splits)

lemma map_result_getitem_no_IndexError:
  "map_result (\<lambda>g. py_getitem g k) xs \<noteq> Inl IndexError"
  by (induction xs) (auto split: sum.splits simp: py_getitem_no_IndexError)

lemma company_names_of_no_IndexError:
  "company_names_of (PDict kvs) \<noteq> Inl IndexError"
  by (auto simp: company_names_of_def ebind_def py_take3_no_IndexError py_iter_no_IndexError
      map_result_getitem_no_IndexError split: sum.splits)

lemma names_under_no_IndexError:
  "names_under (PDict kvs) field k \<noteq> Inl IndexError"
  by (auto simp: names_under_def ebind_def py_iter_no_IndexError
      map_result_getitem_no_IndexError split: sum.splits)

lemma movie_data_of_dict:
  assumes "names_under (PDict kvs) ''genres'' ''id'' = Inr gi"
    and "names_under (PDict kvs) ''genres'' ''name'' = Inr gn"
    and "primary_genre_of (PDict kvs) = Inr pg"
    and "company_names_of (PDict kvs) = Inr cs"
    and "names_under (PDict kvs) ''production_countries'' ''iso_3166_1'' = Inr ns"
  shows "\<exists>m. movie_data_of mid (PDict kvs) = Inr m \<and> genre_ids m = gi \<and> genres m = gn
            \<and> primary_genre m = pg \<and> production_companies m = cs
            \<and> production_countries m = ns"
  using assms by (simp add: movie_data_of_def ebind_def)

lemma movie_data_of_error:
  assumes "names_under (PDict kvs) ''genres'' ''id'' = Inr gi"
    and "names_under (PDict kvs) ''genres'' ''name'' = Inr gn"
    and "primary_genre_of (PDict kvs) = Inr pg"
  shows "movie_data_of mid (PDict kvs) \<noteq> Inl IndexError"
proof (cases "company_names_of (PDict kvs)")
  case (Inl e)
  with company_names_of_no_IndexError [of kvs] assms show ?thesis
    by (simp add: movie_data_of_def ebind_def)
next
  case cs: (Inr cs)
  show ?thesis
  proof (cases "names_under (PDict kvs) ''production_countries'' ''iso_3166_1''")
    case (Inl e)
    with names_under_no_IndexError [of kvs "''production_countries''" "''iso_3166_1''"] assms cs
    show ?thesis
      by (simp add: movie_data_of_def ebind_def)
  next
    case (Inr ns)
    with assms cs show ?thesis
      by (simp add: movie_data_of_def ebind_def)
  qed
qed

lemma map_result_entries:
  "list_all (entry_has k) xs \<Longrightarrow> \<exists>ys. map_result (\<lambda>g. py_getitem g k) xs = Inr ys"
proof (induction xs)
  case Nil
  then show ?case by simp
next
  case (Cons x xs)
  then obtain items v where "x = PDict items" "map_of items k = Some v"
    by (cases x) auto
  with Cons show ?case by auto
qed

lemma entries_ok_cases:
  assumes "entries_ok k (map_of kvs field)"
  obtains "map_of kvs field = None"
  | xs where "map_of kvs field = Some (PList xs)" "list_all (entry_has k) xs"
proof (cases "map_of kvs field")
  case None
  then show ?thesis by (rule that(1))
next
  case (Some v)
  with assms show ?thesis by (cases v) (auto intro: that(2))
qed

lemma names_under_entries:
  assumes "entries_ok k (map_of kvs field)"
  shows "\<exists>ys. names_under (PDict kvs) field k = Inr ys"
  using assms
proof (rule entries_ok_cases)
  assume "map_of kvs field = None"
  then show ?thesis by (simp add: names_under_def ebind_def)
next
  fix xs assume "map_of kvs field = Some (PList xs)" "list_all (entry_has k) xs"
  with map_result_entries [of k xs] show ?thesis
    by (auto simp: names_under_def ebind_def)
qed

lemma company_names_entries:
  assumes "entries_ok ''name'' (map_of kvs ''production_companies'')"
  shows "\<exists>cs. company_names_of (PDict kvs) = Inr cs"
  using assms
proof (rule entries_ok_cases)
  assume "map_of kvs ''production_companies'' = None"
  then show ?thesis by (simp add: company_names_of_def ebind_def)
next
  fix xs assume m: "map_of kvs ''production_companies'' = Some (PList xs)"
    and "list_all (entry_has ''name'') xs"
  then have "list_all (entry_has ''name'') (take 3 xs)"
    by (auto simp: list_all_iff dest: in_set_takeD)
  from map_result_entries [OF this] m show ?thesis
    by (auto simp: company_names_of_def ebind_def)
qed

text \<open>
  C9. For a detail response (a dictionary) whose \<open>genres\<close> list is empty or absent, the
  three genre expressions of the record evaluate without error: \<open>primary_genre\<close> is
  \<open>None\<close> and both genre lists are empty, and building the record never raises the
  \<open>IndexError\<close> an empty list could cause. For every such response of the service's
  shape the extraction succeeds: the record is returned, with \<open>primary_genre = None\<close>.
\<close>

theorem empty_genres_no_error:
  assumes "map_of kvs ''genres'' = None \<or> map_of kvs ''genres'' = Some (PList [])"
  shows "primary_genre_of (PDict kvs) = Inr PNone
       \<and> names_under (PDict kvs) ''genres'' ''id'' = Inr []
       \<and> names_under (PDict kvs) ''genres'' ''name'' = Inr []
       \<and> movie_data_of mid (PDict kvs) \<noteq> Inl IndexError
       \<and> (detail_ok (PDict kvs) \<longrightarrow>
            (\<exists>m. movie_data_of mid (PDict kvs) = Inr m \<and> primary_genre m = PNone
               \<and> genre_ids m = [] \<and> genres m = []))"
proof -
  note g = names_under_no_entries [OF assms] primary_genre_of_no_genres [OF assms]
  have "movie_data_of mid (PDict kvs) \<noteq> Inl IndexError"
    by (rule movie_data_of_error) (rule g)+
  moreover have "\<exists>m. movie_data_of mid (PDict kvs) = Inr m \<and> primary_genre m = PNone
                  \<and> genre_ids m = [] \<and> genres m = []"
    if ok: "detail_ok (PDict kvs)"
  proof -
    from ok obtain cs where cs: "company_names_of (PDict kvs) = Inr cs"
      using company_names_entries [of kvs] by auto
    from ok obtain ns where
      ns: "names_under (PDict kvs) ''production_countries'' ''iso_3166_1'' = Inr ns"
      using names_under_entries [of "''iso_3166_1''" kvs "''production_countries''"] by auto
    from movie_data_of_dict [OF g(1) g(1) g(2) cs ns, of mid] show ?thesis by blast
  qed
  ultimately show ?thesis using g by blast
qed

theorem empty_genres_no_error_witness:
  "(map_of [(''title'', PStr ''Fight Club''), (''budget'', PInt 63000000),
            (''genres'', PList []),
            (''production_companies'', PList [PDict [(''name'', PStr ''Regency'')]])] ''genres''
      = Some (PList []))
   \<and> detail_ok (PDict [(''title'', PStr ''Fight Club''), (''budget'', PInt 63000000),
            (''genres'', PList []),
            (''production_companies'', PList [PDict [(''name'', PStr ''Regency'')]])])
   \<and> movie_data_of (PInt 550) (PDict [(''title'', PStr ''Fight Club''),
        (''budget'', PInt 63000000), (''genres'', PList []),
        (''production_companies'', PList [PDict [(''name'', PStr ''Regency'')]])])
     = Inr \<lparr> movie_id = PInt 550, title = PStr ''Fight Club'', release_date = PNone,
             budget = PInt 63000000, revenue = PInt 0, runtime = PNone,
             vote_average = PNone, vote_count = PNone,
             popularity = PNone, original_language = PNone,
             genre_ids = [], genres = [], primary_genre = PNone,
             production_companies = [PStr ''Regency''], production_countries = [],
             status = PNone, tagline = PNone \<rparr>
   \<and> detail_ok (PDict [(''title'', PStr ''Untitled'')])
   \<and> primary_genre_of (PDict [(''title'', PStr ''Untitled'')]) = Inr PNone"
  using empty_genres_no_error [of "[(''title'', PStr ''Fight Club''),
        (''budget'', PInt 63000000), (''genres'', PList []),
        (''production_companies'', PList [PDict [(''name'', PStr ''Regency'')]])]" "PInt 550"]
    empty_genres_no_error [of "[(''title'', PStr ''Untitled'')]" "PInt 1"]
  by (simp add: movie_data_of_def names_under_def company_names_of_def primary_genre_of_def
      ebind_def)

subsection \<open>The filter of the Collector\<close>

lemma map_result_Inr:
  "map_result f xs = Inr ys \<Longrightarrow> list_all2 (\<lambda>x y. f x = Inr y) xs ys"
  by (induction xs arbitrary: ys) (auto split: sum.splits)

lemma map_result_length: "map_result f xs = Inr ys \<Longrightarrow> length ys = length xs"
  by (drule map_result_Inr) (simp add: list_all2_lengthD)

lemma mask_filter:
  assumes "list_all2 (\<lambda>x b. f x = Inr b) xs bs" and "list_all2 (\<lambda>x r. g x = Inr r) xs rs"
  shows "map fst (filter (\<lambda>(m, keep). keep) (zip xs (map (\<lambda>(b, r). b \<and> r) (zip bs rs))))
           = filter (\<lambda>m. f m = Inr True \<and> g m = Inr True) xs"
  using assms
proof (induction xs arbitrary: bs rs)
  case Nil
  then show ?case by simp
next
  case (Cons x xs)
  from Cons.prems obtain b bs' r rs' where "bs = b # bs'" "rs = r # rs'"
    "f x = Inr b" "g x = Inr r"
    "list_all2 (\<lambda>x b. f x = Inr b) xs bs'" "list_all2 (\<lambda>x r. g x = Inr r) xs rs'"
    by (auto simp: list_all2_Cons1)
  with Cons.IH [of bs' rs'] show ?case by simp
qed

lemma cell_gt0_True: "cell_gt0 x = Inr True \<longleftrightarrow> py_gt x 0 = Inr True"
  by (cases x) auto

lemma filter_financial_Inr:
  assumes "filter_financial df = Inr kept"
  shows "kept = filter (\<lambda>m. py_gt (budget m) 0 = Inr True \<and> py_gt (revenue m) 0 = Inr True) df"
proof -
  from assms obtain bs rs where
    bs: "map_result (\<lambda>m. cell_gt0 (budget m)) df = Inr bs" and
    rs: "map_result (\<lambda>m. cell_gt0 (revenue m)) df = Inr rs" and
    k: "kept = map fst (filter (\<lambda>(m, keep). keep) (zip df (map (\<lambda>(b, r). b \<and> r) (zip bs rs))))"
    by (auto simp: filter_financial_def ebind_def split: if_splits sum.splits)
  show ?thesis
    unfolding k
    using mask_filter [OF map_result_Inr [OF bs] map_result_Inr [OF rs]]
    by (simp add: cell_gt0_True)
qed

lemma process_table_parts:
  assumes "process_table ops all_movies = Inr table"
  obtains kept rois profits years where
    "filter_financial all_movies = Inr kept"
    "list_all2 (\<lambda>m r. roi_op ops (revenue m) (budget m) = Inr r) kept rois"
    "list_all2 (\<lambda>m p. sub_op ops (revenue m) (budget m) = Inr p) kept profits"
    "list_all2 (\<lambda>m y. year_op ops (release_date m) = Inr y) kept years"
    "table = map (\<lambda>(m, r, p, y). \<lparr> movie_of = m, roi = r, profit = p, release_year = y \<rparr>)
               (zip kept (zip rois (zip profits years)))"
proof -
  from assms obtain kept rois profits years where
    k: "filter_financial all_movies = Inr kept" and
    r: "map_result (\<lambda>m. roi_op ops (revenue m) (budget m)) kept = Inr rois" and
    p: "map_result (\<lambda>m. sub_op ops (revenue m) (budget m)) kept = Inr profits" and
    y: "map_result (\<lambda>m. year_op ops (release_date m)) kept = Inr years" and
    t: "table = map (\<lambda>(m, r, p, y). \<lparr> movie_of = m, roi = r, profit = p, release_year = y \<rparr>)
               (zip kept (zip rois (zip profits years)))"
    by (auto simp: process_table_def ebind_def split: sum.splits)
  show thesis
    by (rule that [OF k map_result_Inr [OF r] map_result_Inr [OF p] map_result_Inr [OF y] t])
qed

lemma process_table_Inr:
  assumes "process_table ops all_movies = Inr table"
  shows "map movie_of table =
           filter (\<lambda>m. py_gt (budget m) 0 = Inr True \<and> py_gt (revenue m) 0 = Inr True) all_movies"
proof -
  from assms obtain kept rois profits years where
    k: "filter_financial all_movies = Inr kept" and
    r: "list_all2 (\<lambda>m r. roi_op ops (revenue m) (budget m) = Inr r) kept rois" and
    p: "list_all2 (\<lambda>m p. sub_op ops (revenue m) (budget m) = Inr p) kept profits" and
    y: "list_all2 (\<lambda>m y. year_op ops (release_date m) = Inr y) kept years" and
    t: "table = map (\<lambda>(m, r, p, y). \<lparr> movie_of = m, roi = r, profit = p, release_year = y \<rparr>)
               (zip kept (zip rois (zip profits years)))"
    by (rule process_table_parts)
  have len: "length (zip rois (zip profits years)) = length kept"
    using list_all2_lengthD [OF r] list_all2_lengthD [OF p] list_all2_lengthD [OF y] by simp
  have "map movie_of table = map fst (zip kept (zip rois (zip profits years)))"
    unfolding t by (simp add: case_prod_unfold comp_def)
  also have "\<dots> = kept"
    using len by simp
  finally show ?thesis using filter_financial_Inr [OF k] by simp
qed

lemma zip_first_two:
  "(a, b, c) \<in> set (zip xs (zip ys zs)) \<Longrightarrow> (a, b) \<in> set (zip xs ys)"
  by (auto simp: in_set_zip)

lemma list_all2_zipD:
  "list_all2 P xs ys \<Longrightarrow> (x, y) \<in> set (zip xs ys) \<Longrightarrow> P x y"
  by (auto simp: list_all2_iff)

lemma process_table_roi:
  assumes "process_table ops all_movies = Inr table" and "r \<in> set table"
  shows "roi_op ops (revenue (movie_of r)) (budget (movie_of r)) = Inr (roi r)"
proof -
  from assms(1) obtain kept rois profits years where
    ro: "list_all2 (\<lambda>m r. roi_op ops (revenue m) (budget m) = Inr r) kept rois" and
    t: "table = map (\<lambda>(m, r, p, y). \<lparr> movie_of = m, roi = r, profit = p, release_year = y \<rparr>)
               (zip kept (zip rois (zip profits years)))"
    by (rule process_table_parts)
  from assms(2) obtain m v p y where
    z: "(m, v, p, y) \<in> set (zip kept (zip rois (zip profits years)))" and
    r: "r = \<lparr> movie_of = m, roi = v, profit = p, release_year = y \<rparr>"
    unfolding t by auto
  from list_all2_zipD [OF ro zip_first_two [OF z]] r show ?thesis by simp
qed

lemmas run_defs = collector_main_def main_collect_def get_genres_def http_get_def
   collect_year_data_def discover_movies_def get_movie_details_def
   genre_item_def ebind_def movie_data_of_def names_under_def primary_genre_of_def
   company_names_of_def process_table_def filter_financial_def Let_def

text \<open>
  C6. When the Collector saves a table, every row of it has \<open>budget > 0\<close> and
  \<open>revenue > 0\<close>, and the movies of the table are exactly the collected movies that pass
  both tests, in the order collected: rows with a missing or zero budget or revenue are
  dropped, and the later steps (ROI, profit, release year) neither remove nor add a row.
\<close>

theorem retained_rows_positive:
  assumes "collector_main ops key base svc = (Saved table, tr)"
  shows "\<exists>all_movies. main_collect key base svc = (Inr all_movies, tr)
          \<and> (\<forall>r\<in>set table. py_gt (budget (movie_of r)) 0 = Inr True
                \<and> py_gt (revenue (movie_of r)) 0 = Inr True)
          \<and> map movie_of table =
              filter (\<lambda>m. py_gt (budget m) 0 = Inr True \<and> py_gt (revenue m) 0 = Inr True)
                all_movies"
proof -
  from assms obtain all_movies where
    c: "main_collect key base svc = (Inr all_movies, tr)" and
    p: "process_table ops all_movies = Inr table"
    by (auto simp: collector_main_def split: prod.splits sum.splits)
  note f = process_table_Inr [OF p]
  have "py_gt (budget (movie_of r)) 0 = Inr True \<and> py_gt (revenue (movie_of r)) 0 = Inr True"
    if "r \<in> set table" for r
  proof -
    from that have "movie_of r \<in> set (map movie_of table)" by simp
    then show ?thesis unfolding f by simp
  qed
  with c f show ?thesis by blast
qed

theorem retained_rows_positive_witness:
  "collector_main symbolic_ops None (Some ''https://api.themoviedb.org/3'') demo_service =
    (Saved
       [\<lparr>movie_of =
           \<lparr>movie_id = PInt 1, title = PStr ''A'',
              release_date = PStr ''2019-10-15'', budget = PInt 63000000,
              revenue = PInt 100853753, runtime = PNone, vote_average = PNone,
              vote_count = PNone, popularity = PNone, original_language = PNone,
              genre_ids = [PInt 18], genres = [PStr ''Drama''],
              primary_genre = PStr ''Drama'', production_companies = [],
              production_countries = [], status = PNone, tagline = PNone\<rparr>,
           roi = Percentage (PInt 100853753) (PInt 63000000),
           profit = Difference (PInt 100853753) (PInt 63000000),
           release_year = YearOf (PStr ''2019-10-15'')\<rparr>],
     [Request (Some ''https://api.themoviedb.org/3'') GenreList None,
      Request (Some ''https://api.themoviedb.org/3'') (Discover 2019 1) None,
      Request (Some ''https://api.themoviedb.org/3'') (MovieDetails (PInt 1)) None,
      Request (Some ''https://api.themoviedb.org/3'') (MovieDetails (PInt 2)) None,
      Request (Some ''https://api.themoviedb.org/3'') (MovieDetails (PInt 3)) None,
      Request (Some ''https://api.themoviedb.org/3'') (Discover 2020 1) None,
      Request (Some ''https://api.themoviedb.org/3'') (Discover 2021 1) None,
      Request (Some ''https://api.themoviedb.org/3'') (Discover 2022 1) None,
      Request (Some ''https://api.themoviedb.org/3'') (Discover 2023 1) None,
      Request (Some ''https://api.themoviedb.org/3'') (Discover 2024 1) None])
   \<and> (\<exists>all_movies. length all_movies = 2
        \<and> [\<lparr>movie_id = PInt 1, title = PStr ''A'',
              release_date = PStr ''2019-10-15'', budget = PInt 63000000,
              revenue = PInt 100853753, runtime = PNone, vote_average = PNone,
              vote_count = PNone, popularity = PNone, original_language = PNone,
              genre_ids = [PInt 18], genres = [PStr ''Drama''],
              primary_genre = PStr ''Drama'', production_companies = [],
              production_countries = [], status = PNone, tagline = PNone\<rparr>]
          = filter (\<lambda>m. py_gt (budget m) 0 = Inr True \<and> py_gt (revenue m) 0 = Inr True)
              all_movies)"
proof -
  have run: "collector_main symbolic_ops None (Some ''https://api.themoviedb.org/3'') demo_service =
    (Saved
       [\<lparr>movie_of =
           \<lparr>movie_id = PInt 1, title = PStr ''A'',
              release_date = PStr ''2019-10-15'', budget = PInt 63000000,
              revenue = PInt 100853753, runtime = PNone, vote_average = PNone,
              vote_count = PNone, popularity = PNone, original_language = PNone,
              genre_ids = [PInt 18], genres = [PStr ''Drama''],
              primary_genre = PStr ''Drama'', production_companies = [],
              production_countries = [], status = PNone, tagline = PNone\<rparr>,
           roi = Percentage (PInt 100853753) (PInt 63000000),
           profit = Difference (PInt 100853753) (PInt 63000000),
           release_year = YearOf (PStr ''2019-10-15'')\<rparr>],
     [Request (Some ''https://api.themoviedb.org/3'') GenreList None,
      Request (Some ''https://api.themoviedb.org/3'') (Discover 2019 1) None,
      Request (Some ''https://api.themoviedb.org/3'') (MovieDetails (PInt 1)) None,
      Request (Some ''https://api.themoviedb.org/3'') (MovieDetails (PInt 2)) None,
      Request (Some ''https://api.themoviedb.org/3'') (MovieDetails (PInt 3)) None,
      Request (Some ''https://api.themoviedb.org/3'') (Discover 2020 1) None,
      Request (Some ''https://api.themoviedb.org/3'') (Discover 2021 1) None,
      Request (Some ''https://api.themoviedb.org/3'') (Discover 2022 1) None,
      Request (Some ''https://api.themoviedb.org/3'') (Discover 2023 1) None,
      Request (Some ''https://api.themoviedb.org/3'') (Discover 2024 1) None])"
    by (simp add: run_defs demo_service_def symbolic_ops_def upto.simps)
  have len: "\<exists>ms. main_collect None (Some ''https://api.themoviedb.org/3'') demo_service
      = (Inr ms, tr) \<Longrightarrow> \<forall>ms. main_collect None (Some ''https://api.themoviedb.org/3'')
          demo_service = (Inr ms, tr) \<longrightarrow> length ms = 2" for tr
    by (simp add: run_defs demo_service_def upto.simps)
  from retained_rows_positive [OF run] len run show ?thesis
    by (elim exE conjE) (rule conjI, assumption, rule exI, rule conjI, blast, simp)
qed

subsection \<open>The ROI column\<close>

lemma round_even_error: "\<bar>real_of_int (round_even s) - s\<bar> \<le> 1 / 2"
proof -
  have "real_of_int \<lfloor>s\<rfloor> \<le> s" "s < real_of_int \<lfloor>s\<rfloor> + 1"
    by linarith+
  then show ?thesis
    by (auto simp: round_even_def Let_def)
qed

lemma ilog2_lower:
  assumes "0 < p" "0 < q"
  shows "power_int 2 (ilog2 p q) * real_of_int q \<le> real_of_int p"
proof (cases "power_int 2 (bitlen p - bitlen q) * real_of_int q \<le> real_of_int p")
  case True
  then show ?thesis by (simp add: ilog2_def)
next
  case False
  from bitlen_bounds [OF assms(1)] have "2 ^ nat (bitlen p - 1) \<le> p" by simp
  then have "real_of_int (2 ^ nat (bitlen p - 1)) \<le> real_of_int p"
    by (rule of_int_le_iff [THEN iffD2])
  moreover have "1 \<le> bitlen p" using assms(1) by (simp add: bitlen_alt_def)
  ultimately have p: "power_int 2 (bitlen p - 1) \<le> real_of_int p"
    by (simp add: power_int_def)
  from bitlen_bounds [OF assms(2)] have "q < 2 ^ nat (bitlen q)" by simp
  then have "real_of_int q < real_of_int (2 ^ nat (bitlen q))"
    by (rule of_int_less_iff [THEN iffD2])
  then have q: "real_of_int q \<le> power_int 2 (bitlen q)"
    using bitlen_nonneg [of q] by (simp add: power_int_def)
  have "power_int 2 (bitlen p - bitlen q - 1) * real_of_int q
      \<le> power_int 2 (bitlen p - bitlen q - 1) * power_int 2 (bitlen q)"
    using q by (simp add: mult_left_mono)
  also have "\<dots> = (power_int 2 (bitlen p - 1) :: real)"
    by (simp add: power_int_add [symmetric])
  also note p
  finally show ?thesis using False by (simp add: ilog2_def)
qed

lemma ilog2_upper:
  assumes "0 < p" "0 < q"
  shows "real_of_int p < power_int 2 (ilog2 p q + 1) * real_of_int q"
proof (cases "power_int 2 (bitlen p - bitlen q) * real_of_int q \<le> real_of_int p")
  case False
  then show ?thesis by (simp add: ilog2_def)
next
  case True
  from bitlen_bounds [OF assms(1)] have "p < 2 ^ nat (bitlen p)" by simp
  then have "real_of_int p < real_of_int (2 ^ nat (bitlen p))"
    by (rule of_int_less_iff [THEN iffD2])
  then have p: "real_of_int p < power_int 2 (bitlen p)"
    using bitlen_nonneg [of p] by (simp add: power_int_def)
  from bitlen_bounds [OF assms(2)] have "2 ^ nat (bitlen q - 1) \<le> q" by simp
  then have "real_of_int (2 ^ nat (bitlen q - 1)) \<le> real_of_int q"
    by (rule of_int_le_iff [THEN iffD2])
  moreover have "1 \<le> bitlen q" using assms(2) by (simp add: bitlen_alt_def)
  ultimately have q: "power_int 2 (bitlen q - 1) \<le> real_of_int q"
    by (simp add: power_int_def)
  have "(power_int 2 (bitlen p) :: real)
      = power_int 2 (bitlen p - bitlen q + 1) * power_int 2 (bitlen q - 1)"
    by (simp add: power_int_add [symmetric])
  also have "\<dots> \<le> power_int 2 (bitlen p - bitlen q + 1) * real_of_int q"
    using q by (simp add: mult_left_mono)
  finally show ?thesis using True p by (simp add: ilog2_def)
qed

lemma f64_quot_error:
  assumes "0 < q"
  shows "\<bar>f64_val (f64_quot p q) - real_of_int p / real_of_int q\<bar>
           \<le> \<bar>real_of_int p / real_of_int q\<bar> / 2 ^ 53"
proof (cases "p = 0")
  case True
  then show ?thesis by (simp add: f64_quot_def f64_val_def)
next
  case False
  define a where "a = \<bar>p\<bar>"
  define E where "E = ilog2 a q"
  define u :: real where "u = power_int 2 (E - 52)"
  define s where "s = real_of_int a / (real_of_int q * u)"
  define n where "n = round_even s"
  have a: "0 < a" using False by (simp add: a_def)
  have u: "0 < u" by (simp add: u_def)
  have qr: "0 < real_of_int q" using assms by simp
  have val: "f64_val (f64_quot p q) = real_of_int (sgn p) * (real_of_int n * u)"
    using False by (simp add: f64_quot_def f64_val_def Let_def a_def E_def u_def s_def n_def)
  have pq: "real_of_int p / real_of_int q = real_of_int (sgn p) * (s * u)"
  proof -
    have "real_of_int p = real_of_int (sgn p) * real_of_int a"
      unfolding a_def using False by (cases "p < 0") (simp_all add: sgn_if)
    moreover have "s * u = real_of_int a / real_of_int q"
      using u qr by (simp add: s_def)
    ultimately show ?thesis by simp
  qed
  have sg: "\<bar>real_of_int (sgn p)\<bar> = 1" using False by (simp add: sgn_if)
  have "\<bar>f64_val (f64_quot p q) - real_of_int p / real_of_int q\<bar>
      = \<bar>real_of_int (sgn p) * ((real_of_int n - s) * u)\<bar>"
    unfolding val pq by (simp add: algebra_simps)
  also have "\<dots> = \<bar>real_of_int n - s\<bar> * u"
    using u sg by (simp add: abs_mult)
  also have "\<dots> \<le> 1 / 2 * u"
    using round_even_error [of s] u unfolding n_def by (intro mult_right_mono) simp_all
  finally have err: "\<bar>f64_val (f64_quot p q) - real_of_int p / real_of_int q\<bar> \<le> u / 2"
    by simp
  have "power_int 2 E * real_of_int q \<le> real_of_int a"
    unfolding E_def by (rule ilog2_lower [OF a assms])
  then have "power_int 2 E \<le> real_of_int a / real_of_int q"
    using qr by (simp add: pos_le_divide_eq)
  moreover have "(power_int 2 E :: real) = u * 2 ^ 52"
    unfolding u_def by (simp add: power_int_diff)
  moreover have "\<bar>real_of_int p / real_of_int q\<bar> = real_of_int a / real_of_int q"
    using qr by (simp add: a_def abs_divide)
  ultimately have "u * 2 ^ 52 \<le> \<bar>real_of_int p / real_of_int q\<bar>" by simp
  then have "u / 2 \<le> \<bar>real_of_int p / real_of_int q\<bar> / 2 ^ 53" by simp
  with err show ?thesis by linarith
qed

lemma f64_times_exact_arg:
  "real_of_int (k * fst f * 2 ^ nat (snd f)) / real_of_int (2 ^ nat (- snd f))
     = real_of_int k * f64_val f"
proof (cases "0 \<le> snd f")
  case True
  then show ?thesis by (simp add: f64_val_def power_int_def)
next
  case False
  then show ?thesis by (simp add: f64_val_def power_int_def field_simps)
qed

lemma f64_times_error:
  "\<bar>f64_val (f64_times k f) - real_of_int k * f64_val f\<bar>
     \<le> \<bar>real_of_int k * f64_val f\<bar> / 2 ^ 53"
proof -
  have "(0::int) < 2 ^ nat (- snd f)" by simp
  from f64_quot_error [OF this, of "k * fst f * 2 ^ nat (snd f)"]
  show ?thesis unfolding f64_times_def f64_times_exact_arg .
qed

lemma roi_f64_error:
  assumes "0 < bv"
  shows "\<bar>roi_f64 rv bv - (real_of_int rv - real_of_int bv) / real_of_int bv * 100\<bar>
           \<le> \<bar>(real_of_int rv - real_of_int bv) / real_of_int bv * 100\<bar> / 2 ^ 51"
proof -
  define x where "x = (real_of_int rv - real_of_int bv) / real_of_int bv"
  define v1 where "v1 = f64_val (f64_quot (rv - bv) bv)"
  define v2 where "v2 = roi_f64 rv bv"
  define d :: real where "d = 1 / 2 ^ 53"
  have d: "0 < d" "d \<le> 1" by (simp_all add: d_def)
  have e1: "\<bar>v1 - x\<bar> \<le> \<bar>x\<bar> * d"
    using f64_quot_error [OF assms, of "rv - bv"] by (simp add: v1_def x_def d_def)
  have e2: "\<bar>v2 - 100 * v1\<bar> \<le> 100 * (\<bar>v1\<bar> * d)"
    using f64_times_error [of 100 "f64_quot (rv - bv) bv"]
    by (simp add: v2_def v1_def roi_f64_def d_def abs_mult)
  have "\<bar>x\<bar> * d \<le> \<bar>x\<bar> * 1"
    using d by (intro mult_left_mono) simp_all
  with e1 have "\<bar>v1\<bar> \<le> 2 * \<bar>x\<bar>" by linarith
  then have "\<bar>v1\<bar> * d \<le> 2 * \<bar>x\<bar> * d"
    using d by (intro mult_right_mono) simp_all
  then have v1: "\<bar>v1\<bar> * d \<le> 2 * (\<bar>x\<bar> * d)" by simp
  have "\<bar>v2 - x * 100\<bar> = \<bar>(v2 - 100 * v1) + 100 * (v1 - x)\<bar>"
    by (simp add: algebra_simps)
  also have "\<dots> \<le> \<bar>v2 - 100 * v1\<bar> + \<bar>100 * (v1 - x)\<bar>"
    by (rule abs_triangle_ineq)
  finally have t: "\<bar>v2 - x * 100\<bar> \<le> \<bar>v2 - 100 * v1\<bar> + \<bar>100 * (v1 - x)\<bar>" .
  have m: "\<bar>100 * (v1 - x)\<bar> = 100 * \<bar>v1 - x\<bar>"
    by (subst abs_mult) simp
  define A where "A = \<bar>v2 - 100 * v1\<bar>"
  define B where "B = \<bar>v1 - x\<bar>"
  define C where "C = \<bar>x\<bar> * d"
  define D where "D = \<bar>v1\<bar> * d"
  have "\<bar>v2 - x * 100\<bar> \<le> A + 100 * B" using t m by (simp add: A_def B_def)
  moreover have "B \<le> C" "A \<le> 100 * D" "D \<le> 2 * C"
    using e1 e2 v1 by (simp_all add: A_def B_def C_def D_def)
  ultimately have "\<bar>v2 - x * 100\<bar> \<le> 300 * C" by linarith
  also have "\<dots> = \<bar>x * 100\<bar> * (3 * d)" by (simp add: abs_mult C_def)
  also have "\<dots> \<le> \<bar>x * 100\<bar> * (1 / 2 ^ 51)"
    by (intro mult_left_mono) (simp_all add: d_def)
  finally show ?thesis by (simp add: v2_def x_def)
qed

lemma roi_f64_small: "roi_f64 7 3 = 4691249611844266 / 2 ^ 45"
  by code_simp

lemma roi_f64_sample: "roi_f64 100853753 63000000 = 8456257336576131 / 2 ^ 47"
  by code_simp

text \<open>
  C5, as the script computes it. For every retained row whose revenue and budget are
  integer cells that a double holds exactly, budget is positive and the ROI column is the
  double-precision value of \<open>((revenue - budget) / budget) * 100\<close>: the quotient rounded to
  the nearest double, times 100, rounded to the nearest double. It is within a relative
  \<open>2 ^ - 51\<close> of the exact value of the formula.
\<close>

theorem roi_float64_rounding:
  assumes "collector_main (float64_ops other) key base svc = (Saved table, tr)"
    and "r \<in> set table"
    and "revenue (movie_of r) = PInt rv" and "budget (movie_of r) = PInt bv"
    and "exact_cells rv bv"
  shows "0 < bv \<and> roi r = roi_f64 rv bv
       \<and> \<bar>roi r - (real_of_int rv - real_of_int bv) / real_of_int bv * 100\<bar>
           \<le> \<bar>(real_of_int rv - real_of_int bv) / real_of_int bv * 100\<bar> / 2 ^ 51"
proof -
  from assms(1) obtain all_movies where
    p: "process_table (float64_ops other) all_movies = Inr table"
    by (auto simp: collector_main_def split: prod.splits sum.splits)
  from assms(2) have "movie_of r \<in> set (map movie_of table)" by simp
  then have "py_gt (budget (movie_of r)) 0 = Inr True"
    unfolding process_table_Inr [OF p] by simp
  with assms(4) have bv: "0 < bv" by simp
  from process_table_roi [OF p assms(2)] assms(3,4,5) bv
  have "roi r = roi_f64 rv bv"
    by (simp add: float64_ops_def)
  with bv roi_f64_error [OF bv, of rv] show ?thesis by simp
qed

theorem roi_float64_rounding_witness:
  "collector_main (float64_ops sample_other) None (Some ''https://api.themoviedb.org/3'')
      demo_service =
    (Saved
       [\<lparr>movie_of =
           \<lparr>movie_id = PInt 1, title = PStr ''A'',
              release_date = PStr ''2019-10-15'', budget = PInt 63000000,
              revenue = PInt 100853753, runtime = PNone, vote_average = PNone,
              vote_count = PNone, popularity = PNone, original_language = PNone,
              genre_ids = [PInt 18], genres = [PStr ''Drama''],
              primary_genre = PStr ''Drama'', production_companies = [],
              production_countries = [], status = PNone, tagline = PNone\<rparr>,
           roi = 8456257336576131 / 2 ^ 47, profit = 37853753, release_year = 2019\<rparr>],
     [Request (Some ''https://api.themoviedb.org/3'') GenreList None,
      Request (Some ''https://api.themoviedb.org/3'') (Discover 2019 1) None,
      Request (Some ''https://api.themoviedb.org/3'') (MovieDetails (PInt 1)) None,
      Request (Some ''https://api.themoviedb.org/3'') (MovieDetails (PInt 2)) None,
      Request (Some ''https://api.themoviedb.org/3'') (MovieDetails (PInt 3)) None,
      Request (Some ''https://api.themoviedb.org/3'') (Discover 2020 1) None,
      Request (Some ''https://api.themoviedb.org/3'') (Discover 2021 1) None,
      Request (Some ''https://api.themoviedb.org/3'') (Discover 2022 1) None,
      Request (Some ''https://api.themoviedb.org/3'') (Discover 2023 1) None,
      Request (Some ''https://api.themoviedb.org/3'') (Discover 2024 1) None])
   \<and> exact_cells 100853753 63000000
   \<and> (0 :: int) < 63000000
   \<and> (8456257336576131 / 2 ^ 47 :: real) = roi_f64 100853753 63000000
   \<and> \<bar>(8456257336576131 / 2 ^ 47 :: real)
        - (real_of_int 100853753 - real_of_int 63000000) / real_of_int 63000000 * 100\<bar>
        \<le> \<bar>(real_of_int 100853753 - real_of_int 63000000) / real_of_int 63000000 * 100\<bar>
            / 2 ^ 51"
proof -
  let ?row = "\<lparr>movie_of =
           \<lparr>movie_id = PInt 1, title = PStr ''A'',
              release_date = PStr ''2019-10-15'', budget = PInt 63000000,
              revenue = PInt 100853753, runtime = PNone, vote_average = PNone,
              vote_count = PNone, popularity = PNone, original_language = PNone,
              genre_ids = [PInt 18], genres = [PStr ''Drama''],
              primary_genre = PStr ''Drama'', production_companies = [],
              production_countries = [], status = PNone, tagline = PNone\<rparr>,
           roi = (8456257336576131 / 2 ^ 47 :: real), profit = 37853753,
           release_year = 2019\<rparr>"
  let ?calls = "[Request (Some ''https://api.themoviedb.org/3'') GenreList None,
      Request (Some ''https://api.themoviedb.org/3'') (Discover 2019 1) None,
      Request (Some ''https://api.themoviedb.org/3'') (MovieDetails (PInt 1)) None,
      Request (Some ''https://api.themoviedb.org/3'') (MovieDetails (PInt 2)) None,
      Request (Some ''https://api.themoviedb.org/3'') (MovieDetails (PInt 3)) None,
      Request (Some ''https://api.themoviedb.org/3'') (Discover 2020 1) None,
      Request (Some ''https://api.themoviedb.org/3'') (Discover 2021 1) None,
      Request (Some ''https://api.themoviedb.org/3'') (Discover 2022 1) None,
      Request (Some ''https://api.themoviedb.org/3'') (Discover 2023 1) None,
      Request (Some ''https://api.themoviedb.org/3'') (Discover 2024 1) None]"
  have run: "collector_main (float64_ops sample_other) None
      (Some ''https://api.themoviedb.org/3'') demo_service = (Saved [?row], ?calls)"
    by (simp add: run_defs demo_service_def float64_ops_def sample_other_def upto.simps
        exact_cells_def roi_f64_sample)
  have row: "?row \<in> set [?row]" by simp
  have rv: "revenue (movie_of ?row) = PInt 100853753" by simp
  have bv: "budget (movie_of ?row) = PInt 63000000" by simp
  have ex: "exact_cells 100853753 63000000"
    by (simp add: exact_cells_def)
  from roi_float64_rounding [OF run row rv bv ex]
  have "(0 :: int) < 63000000
     \<and> (8456257336576131 / 2 ^ 47 :: real) = roi_f64 100853753 63000000
     \<and> \<bar>(8456257336576131 / 2 ^ 47 :: real)
        - (real_of_int 100853753 - real_of_int 63000000) / real_of_int 63000000 * 100\<bar>
        \<le> \<bar>(real_of_int 100853753 - real_of_int 63000000) / real_of_int 63000000 * 100\<bar>
            / 2 ^ 51"
    by (simp add: roi_f64_sample)
  with run ex show ?thesis by (simp add: roi_f64_sample)
qed

text \<open>
  C5 as stated fails: for revenue 7 and budget 3 the column holds
  \<open>4691249611844266 / 2 ^ 45\<close> (133.33333333333331), which is not \<open>400 / 3\<close>.
\<close>

theorem roi_exact_counterexample:
  "process_table (float64_ops sample_other) [small_movie] =
     Inr [\<lparr> movie_of = small_movie, roi = 4691249611844266 / 2 ^ 45, profit = 4,
            release_year = 2019 \<rparr>]
   \<and> (4691249611844266 / 2 ^ 45 :: real) \<noteq> (7 - 3) / 3 * 100"
  by (simp add: process_table_def filter_financial_def ebind_def float64_ops_def
      sample_other_def small_movie_def exact_cells_def roi_f64_small)

subsection \<open>The calls a run makes\<close>

lemma get_movie_details_calls:
  "snd (get_movie_details c svc mid tr) = tr @ [Request (base_url c) (MovieDetails mid) (api_key c)]"
  by (simp add: get_movie_details_def http_get_def split: response.splits)

lemma discover_movies_calls:
  "snd (discover_movies c svc year page tr) = tr @ [Request (base_url c) (Discover year page) (api_key c)]"
  by (simp add: discover_movies_def http_get_def split: response.splits)

lemma get_watch_providers_calls:
  "snd (get_watch_providers c svc mid tr) = tr @ [Request (base_url c) (WatchProviders mid) (api_key c)]"
  by (simp add: get_watch_providers_def http_get_def split: response.splits)

lemma get_genres_calls:
  "snd (get_genres c svc tr) = tr @ [Request (base_url c) GenreList (api_key c)]"
  by (simp add: get_genres_def http_get_def split: response.splits)

lemma extend_calls:
  assumes "\<exists>ys. t = (tr @ [rq]) @ ys \<and> length ys \<le> n"
  shows "\<exists>ys. t = tr @ ys \<and> length ys \<le> Suc n"
proof -
  from assms obtain ys where "t = (tr @ [rq]) @ ys" "length ys \<le> n" by blast
  then have "t = tr @ (rq # ys) \<and> length (rq # ys) \<le> Suc n" by simp
  then show ?thesis by blast
qed

lemma collect_movies_calls:
  "\<exists>ys. snd (collect_movies c svc ms acc tr) = tr @ ys \<and> length ys \<le> length ms"
proof (induction ms arbitrary: acc tr)
  case Nil
  then show ?case by simp
next
  case (Cons m ms)
  show ?case
  proof (cases "py_getitem m ''id''")
    case (Inl e)
    then show ?thesis by simp
  next
    case (Inr mid)
    define rq where "rq = Request (base_url c) (MovieDetails mid) (api_key c)"
    obtain details tr' where d: "get_movie_details c svc mid tr = (details, tr')"
      by (cases "get_movie_details c svc mid tr")
    with get_movie_details_calls [of c svc mid tr]
    have tr': "tr' = tr @ [rq]" by (simp add: rq_def)
    have rec: "\<exists>ys. snd (collect_movies c svc ms acc' tr') = tr @ ys \<and> length ys \<le> Suc (length ms)"
      for acc'
      using Cons.IH [of acc' tr'] unfolding tr' by (rule extend_calls)
    have stop: "\<exists>ys. tr' = tr @ ys \<and> length ys \<le> Suc (length ms)"
      unfolding tr' by (rule exI [of _ "[rq]"]) simp
    show ?thesis
    proof (cases "py_truthy details")
      case False
      with Inr d rec [of acc] show ?thesis by simp
    next
      case True
      show ?thesis
      proof (cases "movie_data_of mid details")
        case (Inl e)
        with Inr d True stop show ?thesis by simp
      next
        case md: (Inr md)
        with Inr d True rec [of "acc @ [md]"] show ?thesis by simp
      qed
    qed
  qed
qed

lemma collect_movies_prefix: "prefix tr (snd (collect_movies c svc ms acc tr))"
  using collect_movies_calls [of c svc ms acc tr] by (auto simp: prefix_def)

lemma collect_pages_prefix: "prefix tr (snd (collect_pages c svc year pages acc tr))"
proof (induction pages arbitrary: acc tr)
  case Nil
  then show ?case by simp
next
  case (Cons page pages)
  obtain dr tr1 where d: "discover_movies c svc year page tr = (dr, tr1)"
    by (cases "discover_movies c svc year page tr")
  with discover_movies_calls [of c svc year page tr] have p1: "prefix tr tr1"
    by simp
  have p2: "prefix tr tr2" if "collect_movies c svc movies acc tr1 = (res, tr2)" for movies res tr2
    using collect_movies_prefix [of tr1 c svc movies acc] that p1 by auto
  have p3: "prefix tr (snd (collect_pages c svc year pages acc' tr2))"
    if "collect_movies c svc movies acc tr1 = (res, tr2)" for movies res tr2 acc'
    using Cons.IH [where acc = acc' and tr = tr2] p2 [OF that] by auto
  show ?case
    using d p1 p2 p3
    by (auto split: sum.splits prod.splits)
qed

lemma collect_years_prefix: "prefix tr (snd (collect_years c svc mp years acc tr))"
proof (induction years arbitrary: acc tr)
  case Nil
  then show ?case by simp
next
  case (Cons year years)
  obtain res tr1 where d: "collect_year_data c svc year mp tr = (res, tr1)"
    by (cases "collect_year_data c svc year mp tr")
  with collect_pages_prefix [of tr c svc year "[1..mp]" "[]"] have p1: "prefix tr tr1"
    by (simp add: collect_year_data_def)
  have "prefix tr (snd (collect_years c svc mp years acc' tr1))" for acc'
    using Cons.IH [where acc = acc' and tr = tr1] p1 by auto
  with d p1 show ?case
    by (auto split: sum.splits)
qed

lemma enrich_rows_calls:
  "\<exists>ys. snd (enrich_rows c svc todo updated tr) = tr @ ys \<and> length ys \<le> length todo"
proof (induction todo arbitrary: updated tr)
  case Nil
  then show ?case by simp
next
  case (Cons r todo)
  show ?case
  proof (cases "r ''movie_id''")
    case None
    then show ?thesis by simp
  next
    case (Some mid)
    define rq where "rq = Request (base_url c) (WatchProviders mid) (api_key c)"
    obtain res tr' where d: "get_watch_providers c svc mid tr = (res, tr')"
      by (cases "get_watch_providers c svc mid tr")
    with get_watch_providers_calls [of c svc mid tr]
    have tr': "tr' = tr @ [rq]" by (simp add: rq_def)
    have rec: "\<exists>ys. snd (enrich_rows c svc todo u tr') = tr @ ys \<and> length ys \<le> Suc (length todo)"
      for u
      using Cons.IH [where updated = u and tr = tr'] unfolding tr' by (rule extend_calls)
    have stop: "\<exists>ys. tr' = tr @ ys \<and> length ys \<le> Suc (length todo)"
      unfolding tr' by (rule exI [of _ "[rq]"]) simp
    show ?thesis
      using Some d rec stop by (auto split: sum.splits)
  qed
qed

lemma first_call:
  assumes "prefix (rq # tr) t"
  shows "\<exists>rest. t = rq # rest"
  using assms by (auto simp: prefix_def)

lemma main_collect_first_call:
  "\<exists>rest. snd (main_collect key base svc) = Request base GenreList key # rest"
proof -
  define c where "c = \<lparr> api_key = key, base_url = base \<rparr>"
  obtain res tr where g: "get_genres c svc [] = (res, tr)"
    by (cases "get_genres c svc []")
  with get_genres_calls [of c svc "[]"] have tr: "tr = [Request base GenreList key]"
    by (simp add: c_def)
  have "prefix tr (snd (collect_years c svc 5 [2019, 2020, 2021, 2022, 2023, 2024] [] tr))"
    by (rule collect_years_prefix)
  then have "\<exists>rest. snd (collect_years c svc 5 [2019, 2020, 2021, 2022, 2023, 2024] [] tr)
      = Request base GenreList key # rest"
    unfolding tr by (rule first_call)
  with g tr show ?thesis
    by (auto simp: main_collect_def c_def Let_def split: sum.splits)
qed

lemma collector_main_calls:
  "snd (collector_main ops key base svc) = snd (main_collect key base svc)"
  by (auto simp: collector_main_def split: prod.splits sum.splits)

lemma init_cols_movie_id: "init_cols r ''movie_id'' = r ''movie_id''"
  by (simp add: init_cols_def)

lemma enricher_first_call:
  assumes "r ''movie_id'' = Some mid"
  shows "\<exists>rest. snd (enricher_main key base svc (Some (r # df)))
           = Request base (WatchProviders mid) key # rest"
proof -
  define c where "c = \<lparr> api_key = key, base_url = base \<rparr>"
  define rq where "rq = Request base (WatchProviders mid) key"
  obtain res tr where g: "get_watch_providers c svc mid [] = (res, tr)"
    by (cases "get_watch_providers c svc mid []")
  with get_watch_providers_calls [of c svc mid "[]"] have tr: "tr = [rq]"
    by (simp add: c_def rq_def)
  have rec: "\<exists>rest. snd (enrich_rows c svc todo u tr) = rq # rest" for todo u
    using enrich_rows_calls [of c svc todo u tr] unfolding tr by auto
  have "\<exists>rest. snd (enrich_rows c svc (init_cols r # map init_cols df) [] []) = rq # rest"
    using g tr rec assms
    by (auto simp: init_cols_movie_id split: sum.splits)
  then have "\<exists>rest. snd (enrich_dataset c svc (r # df) []) = rq # rest"
    by (auto simp: enrich_dataset_def split: prod.splits sum.splits)
  then show ?thesis
    by (auto simp: enricher_main_def c_def rq_def split: prod.splits sum.splits)
qed

text \<open>
  C2, as the scripts behave. Neither script looks at the credential before it calls the
  service. With the credential absent, the first thing the Collector does is the genre-list
  request, sent without a key; the Enricher, given a table with at least one row, sends the
  watch-provider request of the first row without a key. The one condition checked before
  any call is the Enricher's input file: when it is missing the run ends with no call made.
\<close>

theorem absent_credential_not_checked:
  "(\<exists>rest. snd (collector_main ops None base svc) = Request base GenreList None # rest)
   \<and> enricher_main None base svc None = (MissingInput, [])
   \<and> (r ''movie_id'' = Some mid \<longrightarrow>
        (\<exists>rest. snd (enricher_main None base svc (Some (r # df)))
           = Request base (WatchProviders mid) None # rest))"
  using main_collect_first_call [of None base svc] enricher_first_call [of r mid None base svc df]
  by (simp add: collector_main_calls enricher_main_def)

theorem absent_credential_not_checked_witness:
  "sample_row ''movie_id'' = Some (PInt 550)
   \<and> (\<exists>rest. snd (collector_main symbolic_ops None (Some ''https://api.themoviedb.org/3'')
          demo_service)
        = Request (Some ''https://api.themoviedb.org/3'') GenreList None # rest)
   \<and> enricher_main None (Some ''https://api.themoviedb.org/3'') demo_service None
        = (MissingInput, [])
   \<and> (\<exists>rest. snd (enricher_main None (Some ''https://api.themoviedb.org/3'') demo_service
          (Some [sample_row]))
        = Request (Some ''https://api.themoviedb.org/3'') (WatchProviders (PInt 550)) None # rest)"
  using absent_credential_not_checked [where ops = symbolic_ops
      and base = "Some ''https://api.themoviedb.org/3''" and svc = demo_service
      and r = sample_row and mid = "PInt 550" and df = "[]"]
  by (simp add: sample_row_def)

text \<open>
  C2 as stated fails: with no credential and a service that rejects every call, the
  Collector makes seven calls before it stops on the empty table, and the Enricher calls
  the service for its row and completes.
\<close>

theorem absent_credential_counterexample:
  "collector_main symbolic_ops None (Some ''https://api.themoviedb.org/3'') unauthorized =
     (Uncaught KeyError,
      [Request (Some ''https://api.themoviedb.org/3'') GenreList None,
       Request (Some ''https://api.themoviedb.org/3'') (Discover 2019 1) None,
       Request (Some ''https://api.themoviedb.org/3'') (Discover 2020 1) None,
       Request (Some ''https://api.themoviedb.org/3'') (Discover 2021 1) None,
       Request (Some ''https://api.themoviedb.org/3'') (Discover 2022 1) None,
       Request (Some ''https://api.themoviedb.org/3'') (Discover 2023 1) None,
       Request (Some ''https://api.themoviedb.org/3'') (Discover 2024 1) None])
   \<and> completed (fst (enricher_main None (Some ''https://api.themoviedb.org/3'') unauthorized
        (Some [sample_row])))
   \<and> snd (enricher_main None (Some ''https://api.themoviedb.org/3'') unauthorized
        (Some [sample_row]))
      = [Request (Some ''https://api.themoviedb.org/3'') (WatchProviders (PInt 550)) None]"
  by (simp add: run_defs unauthorized_def symbolic_ops_def upto.simps
      enricher_main_def enrich_dataset_def get_watch_providers_def parse_providers_def
      add_release_strategy_def categorize_release_strategy_def row_get_def init_cols_def
      set_parsed_def parsed_init_def sample_row_def has_sample_cols_def)

text \<open>
  C3, as the scripts behave. A failed detail call skips that movie and the loop goes on
  with the next movie. A failed discovery call ends the page loop of that year with the
  movies collected so far, so the remaining pages of the year are not requested, and
  collection goes on with the next year. A failed watch-provider call gives the empty
  payload, the row gets the all-false record, and the loop goes on with the next row. Each
  failed call is one request and is not repeated: a list of movies or rows causes at most
  one call per item.
\<close>

theorem fetch_failure_handling:
  "(py_getitem m ''id'' = Inr mid
      \<and> svc (length tr) (Request (base_url c) (MovieDetails mid) (api_key c)) = Failed
    \<longrightarrow> collect_movies c svc (m # rest) movies_data tr
          = collect_movies c svc rest movies_data
              (tr @ [Request (base_url c) (MovieDetails mid) (api_key c)]))
   \<and> (svc (length tr) (Request (base_url c) (Discover year page) (api_key c)) = Failed
    \<longrightarrow> collect_pages c svc year (page # pages) movies_data tr
          = (Inr movies_data, tr @ [Request (base_url c) (Discover year page) (api_key c)]))
   \<and> (svc (length tr) (Request (base_url c) (Discover year 1) (api_key c)) = Failed
      \<and> 1 \<le> max_pages
    \<longrightarrow> collect_years c svc max_pages (year # years) all_movies tr
          = collect_years c svc max_pages years all_movies
              (tr @ [Request (base_url c) (Discover year 1) (api_key c)]))
   \<and> (r ''movie_id'' = Some mid
      \<and> svc (length tr) (Request (base_url c) (WatchProviders mid) (api_key c)) = Failed
    \<longrightarrow> get_watch_providers c svc mid tr
          = (Inr (PDict []), tr @ [Request (base_url c) (WatchProviders mid) (api_key c)])
        \<and> enrich_rows c svc (r # todo) updated tr
          = enrich_rows c svc todo
              (updated @ [set_parsed r
                 \<lparr> available_on_streaming = False, streaming_platforms = [],
                   available_to_rent = False, available_to_buy = False,
                   on_netflix = False, on_prime = False, on_disney = False, on_hulu = False,
                   on_hbo = False, total_platforms = 0 \<rparr>])
              (tr @ [Request (base_url c) (WatchProviders mid) (api_key c)]))
   \<and> (\<exists>ys. snd (collect_movies c svc ms movies_data tr) = tr @ ys \<and> length ys \<le> length ms)
   \<and> (\<exists>ys. snd (enrich_rows c svc todo updated tr) = tr @ ys \<and> length ys \<le> length todo)"
proof (intro conjI impI)
  assume "py_getitem m ''id'' = Inr mid
      \<and> svc (length tr) (Request (base_url c) (MovieDetails mid) (api_key c)) = Failed"
  then show "collect_movies c svc (m # rest) movies_data tr
          = collect_movies c svc rest movies_data
              (tr @ [Request (base_url c) (MovieDetails mid) (api_key c)])"
    by (simp add: get_movie_details_def http_get_def)
next
  assume "svc (length tr) (Request (base_url c) (Discover year page) (api_key c)) = Failed"
  then show "collect_pages c svc year (page # pages) movies_data tr
          = (Inr movies_data, tr @ [Request (base_url c) (Discover year page) (api_key c)])"
    by (simp add: discover_movies_def http_get_def)
next
  assume a: "svc (length tr) (Request (base_url c) (Discover year 1) (api_key c)) = Failed
      \<and> 1 \<le> max_pages"
  then have "[1..max_pages] = 1 # [2..max_pages]"
    by (simp add: upto.simps)
  with a have "collect_year_data c svc year max_pages tr
      = (Inr [], tr @ [Request (base_url c) (Discover year 1) (api_key c)])"
    by (simp add: collect_year_data_def discover_movies_def http_get_def)
  then show "collect_years c svc max_pages (year # years) all_movies tr
          = collect_years c svc max_pages years all_movies
              (tr @ [Request (base_url c) (Discover year 1) (api_key c)])"
    by simp
next
  assume a: "r ''movie_id'' = Some mid
      \<and> svc (length tr) (Request (base_url c) (WatchProviders mid) (api_key c)) = Failed"
  then show g: "get_watch_providers c svc mid tr
          = (Inr (PDict []), tr @ [Request (base_url c) (WatchProviders mid) (api_key c)])"
    by (simp add: get_watch_providers_def http_get_def)
  have "parse_providers (PDict []) = Inr parsed_init"
    by (rule parse_providers_absent) simp_all
  with a g show "enrich_rows c svc (r # todo) updated tr
          = enrich_rows c svc todo
              (updated @ [set_parsed r
                 \<lparr> available_on_streaming = False, streaming_platforms = [],
                   available_to_rent = False, available_to_buy = False,
                   on_netflix = False, on_prime = False, on_disney = False, on_hulu = False,
                   on_hbo = False, total_platforms = 0 \<rparr>])
              (tr @ [Request (base_url c) (WatchProviders mid) (api_key c)])"
    by (simp add: parsed_init_def)
next
  show "\<exists>ys. snd (collect_movies c svc ms movies_data tr) = tr @ ys \<and> length ys \<le> length ms"
    by (rule collect_movies_calls)
next
  show "\<exists>ys. snd (enrich_rows c svc todo updated tr) = tr @ ys \<and> length ys \<le> length todo"
    by (rule enrich_rows_calls)
qed

theorem fetch_failure_handling_witness:
  "py_getitem (PDict [(''id'', PInt 1)]) ''id'' = Inr (PInt 1)
   \<and> unauthorized 0 (Request (Some ''https://api.themoviedb.org/3'') (MovieDetails (PInt 1))
        (Some ''k'')) = Failed
   \<and> collect_movies \<lparr> api_key = Some ''k'', base_url = Some ''https://api.themoviedb.org/3'' \<rparr>
        unauthorized [PDict [(''id'', PInt 1)], PDict [(''id'', PInt 2)]] [] []
      = (Inr [], [Request (Some ''https://api.themoviedb.org/3'') (MovieDetails (PInt 1)) (Some ''k''),
                  Request (Some ''https://api.themoviedb.org/3'') (MovieDetails (PInt 2)) (Some ''k'')])
   \<and> collect_pages \<lparr> api_key = Some ''k'', base_url = Some ''https://api.themoviedb.org/3'' \<rparr>
        unauthorized 2019 [1, 2, 3] [] []
      = (Inr [], [Request (Some ''https://api.themoviedb.org/3'') (Discover 2019 1) (Some ''k'')])
   \<and> collect_years \<lparr> api_key = Some ''k'', base_url = Some ''https://api.themoviedb.org/3'' \<rparr>
        unauthorized 5 [2019, 2020] [] []
      = (Inr [], [Request (Some ''https://api.themoviedb.org/3'') (Discover 2019 1) (Some ''k''),
                  Request (Some ''https://api.themoviedb.org/3'') (Discover 2020 1) (Some ''k'')])
   \<and> snd (enrich_rows \<lparr> api_key = Some ''k'', base_url = Some ''https://api.themoviedb.org/3'' \<rparr>
        unauthorized [map_of [(''movie_id'', PInt 550)], map_of [(''movie_id'', PInt 551)]] [] [])
      = [Request (Some ''https://api.themoviedb.org/3'') (WatchProviders (PInt 550)) (Some ''k''),
         Request (Some ''https://api.themoviedb.org/3'') (WatchProviders (PInt 551)) (Some ''k'')]"
  using fetch_failure_handling [where svc = unauthorized and tr = "[]"
      and c = "\<lparr> api_key = Some ''k'', base_url = Some ''https://api.themoviedb.org/3'' \<rparr>"
      and m = "PDict [(''id'', PInt 1)]" and mid = "PInt 1" and rest = "[PDict [(''id'', PInt 2)]]"
      and movies_data = "[]" and year = 2019 and page = 1 and pages = "[2, 3]"
      and max_pages = 5 and years = "[2020]" and all_movies = "[]"
      and r = "map_of [(''movie_id'', PInt 1)]" and todo = "[]" and updated = "[]"
      and ms = "[]"]
  by (simp add: unauthorized_def get_movie_details_def discover_movies_def http_get_def
      get_watch_providers_def collect_year_data_def upto.simps parse_providers_def ebind_def
      parsed_init_def)

text \<open>
  C3 as stated fails for a discovery page: when the call for page 1 of a year fails, the
  loop does not go on with page 2, although the service would have answered it.
\<close>

theorem fetch_failure_counterexample:
  "collect_year_data \<lparr> api_key = Some ''k'', base_url = Some ''https://api.themoviedb.org/3'' \<rparr>
      first_call_lost 2019 5 []
     = (Inr [], [Request (Some ''https://api.themoviedb.org/3'') (Discover 2019 1) (Some ''k'')])
   \<and> first_call_lost 1 (Request (Some ''https://api.themoviedb.org/3'') (Discover 2019 2) (Some ''k''))
     = Body (PDict [(''results'', PList []), (''total_pages'', PInt 5)])"
  by (simp add: collect_year_data_def discover_movies_def http_get_def first_call_lost_def
      upto.simps)


end
